theory Spec2Isabelle
  imports Complex_Main
begin

section \<open>Armature deformation of vertex coordinates\<close>

text \<open>
  A shallow embedding of \<^verbatim>\<open>source/blender/blenkernel/intern/armature_deform.cc\<close>.

  Numbers: the envelope falloff \<^verbatim>\<open>bone_envelope_falloff\<close> is written over a record of the
  \<^verbatim>\<open>float\<close> operations it uses, and its properties are stated for the arithmetic of
  IEEE 754 single precision: every operation is rounded to the nearest representable
  number, ties to even, with gradual underflow, overflow to infinity, and NaN. The vertex
  and batch drivers run on the exact instance of the same record, where \<^verbatim>\<open>float\<close> is
  \<^typ>\<open>real\<close> and no operation rounds; the statements about them are about which
  vertices and bones are visited and which buffers are written, and compare the driver
  with itself on the same numbers.
\<close>

subsection \<open>Single-precision numbers\<close>

text \<open>
  The finite numbers of the format are the multiples of \<^verbatim>\<open>2^(e-23)\<close> below
  \<^verbatim>\<open>2^(e+1)\<close> in magnitude, for an exponent \<^verbatim>\<open>e\<close> from -126 to 127; below
  \<^verbatim>\<open>2^-126\<close> they are the multiples of \<^verbatim>\<open>2^-149\<close> (the subnormal numbers).
  \<open>round_val\<close> takes a real number to the nearest multiple of the unit of its binade,
  the even multiple when two are equally near, and \<open>round32\<close> turns a result of
  magnitude \<^verbatim>\<open>2^128\<close> or more into an infinity.
\<close>

definition pow2 :: "int \<Rightarrow> real" where
  "pow2 e = (if 0 \<le> e then 2 ^ nat e else 1 / 2 ^ nat (- e))"

definition f32_exponent :: "real \<Rightarrow> int" where
  "f32_exponent x = (if \<bar>x\<bar> < pow2 (- 126) then - 126 else \<lfloor>log 2 \<bar>x\<bar>\<rfloor>)"

definition f32_ulp :: "real \<Rightarrow> real" where
  "f32_ulp x = pow2 (f32_exponent x - 23)"

definition round_even :: "real \<Rightarrow> int" where
  "round_even q =
     (let n = \<lfloor>q\<rfloor>; d = q - of_int n
      in if d < 1 / 2 then n
         else if 1 / 2 < d then n + 1
         else if even n then n else n + 1)"

definition round_val :: "real \<Rightarrow> real" where
  "round_val x = of_int (round_even (x / f32_ulp x)) * f32_ulp x"

text \<open>
  A value of type \<^verbatim>\<open>float\<close>. Zero carries no sign: comparisons do not tell the two
  zeros apart, and the one divisor of \<^verbatim>\<open>bone_envelope_falloff\<close>, the product
  \<^verbatim>\<open>falloff_distance * falloff_distance\<close>, is never a negative zero. A real number
  \<open>x\<close> is a \<^verbatim>\<open>float\<close> when rounding leaves it as it is.
\<close>

datatype f32 = Finite real | PInf | NInf | NaN

definition round32 :: "real \<Rightarrow> f32" where
  "round32 x =
     (let y = round_val x
      in if pow2 128 \<le> y then PInf else if y \<le> - pow2 128 then NInf else Finite y)"

definition is_f32 :: "real \<Rightarrow> bool" where
  "is_f32 x = (round32 x = Finite x)"

text \<open>
  The operations \<^verbatim>\<open>+\<close>, \<^verbatim>\<open>-\<close>, \<^verbatim>\<open>*\<close>, \<^verbatim>\<open>/\<close>, \<^verbatim>\<open>sqrtf\<close> and the comparisons
  \<^verbatim>\<open><\<close>, \<^verbatim>\<open>>=\<close>, \<^verbatim>\<open>==\<close> on \<^verbatim>\<open>float\<close>. An operation on finite numbers is
  the exact result, rounded once to single precision: no intermediate result is kept in
  a wider format and no product is fused with a sum. At the infinities the operations
  have their usual results; the difference of equal infinities, zero times an infinity,
  zero by zero, an infinity by an infinity and the square root of a negative number
  are NaN; every comparison with NaN is false.
\<close>

fun f32_neg :: "f32 \<Rightarrow> f32" where
  "f32_neg (Finite x) = Finite (- x)"
| "f32_neg PInf = NInf"
| "f32_neg NInf = PInf"
| "f32_neg NaN = NaN"

fun f32_add :: "f32 \<Rightarrow> f32 \<Rightarrow> f32" where
  "f32_add (Finite x) (Finite y) = round32 (x + y)"
| "f32_add NaN b = NaN"
| "f32_add a NaN = NaN"
| "f32_add PInf NInf = NaN"
| "f32_add NInf PInf = NaN"
| "f32_add PInf b = PInf"
| "f32_add a PInf = PInf"
| "f32_add NInf b = NInf"
| "f32_add a NInf = NInf"

definition f32_sub :: "f32 \<Rightarrow> f32 \<Rightarrow> f32" where
  "f32_sub a b = f32_add a (f32_neg b)"

fun f32_mul :: "f32 \<Rightarrow> f32 \<Rightarrow> f32" where
  "f32_mul (Finite x) (Finite y) = round32 (x * y)"
| "f32_mul NaN b = NaN"
| "f32_mul a NaN = NaN"
| "f32_mul (Finite x) PInf = (if x = 0 then NaN else if 0 < x then PInf else NInf)"
| "f32_mul (Finite x) NInf = (if x = 0 then NaN else if 0 < x then NInf else PInf)"
| "f32_mul PInf (Finite y) = (if y = 0 then NaN else if 0 < y then PInf else NInf)"
| "f32_mul NInf (Finite y) = (if y = 0 then NaN else if 0 < y then NInf else PInf)"
| "f32_mul PInf PInf = PInf"
| "f32_mul NInf NInf = PInf"
| "f32_mul PInf NInf = NInf"
| "f32_mul NInf PInf = NInf"

fun f32_div :: "f32 \<Rightarrow> f32 \<Rightarrow> f32" where
  "f32_div (Finite x) (Finite y) =
     (if y = 0 then (if x = 0 then NaN else if 0 < x then PInf else NInf)
      else round32 (x / y))"
| "f32_div NaN b = NaN"
| "f32_div a NaN = NaN"
| "f32_div (Finite x) PInf = Finite 0"
| "f32_div (Finite x) NInf = Finite 0"
| "f32_div PInf (Finite y) = (if y < 0 then NInf else PInf)"
| "f32_div NInf (Finite y) = (if y < 0 then PInf else NInf)"
| "f32_div PInf PInf = NaN"
| "f32_div NInf NInf = NaN"
| "f32_div PInf NInf = NaN"
| "f32_div NInf PInf = NaN"

fun f32_sqrt :: "f32 \<Rightarrow> f32" where
  "f32_sqrt (Finite x) = (if x < 0 then NaN else round32 (sqrt x))"
| "f32_sqrt PInf = PInf"
| "f32_sqrt NInf = NaN"
| "f32_sqrt NaN = NaN"

fun f32_lt :: "f32 \<Rightarrow> f32 \<Rightarrow> bool" where
  "f32_lt (Finite x) (Finite y) = (x < y)"
| "f32_lt NaN b = False"
| "f32_lt a NaN = False"
| "f32_lt PInf b = False"
| "f32_lt a NInf = False"
| "f32_lt a PInf = True"
| "f32_lt NInf b = True"

fun f32_ge :: "f32 \<Rightarrow> f32 \<Rightarrow> bool" where
  "f32_ge (Finite x) (Finite y) = (y \<le> x)"
| "f32_ge NaN b = False"
| "f32_ge a NaN = False"
| "f32_ge PInf b = True"
| "f32_ge a NInf = True"
| "f32_ge a PInf = False"
| "f32_ge NInf b = False"

fun f32_eq :: "f32 \<Rightarrow> f32 \<Rightarrow> bool" where
  "f32_eq (Finite x) (Finite y) = (x = y)"
| "f32_eq PInf PInf = True"
| "f32_eq NInf NInf = True"
| "f32_eq a b = False"

text \<open>
  The operations of \<^verbatim>\<open>float\<close> used by the envelope code, as a record, with its two
  instances: single precision, and exact arithmetic on \<^typ>\<open>real\<close>.
\<close>

record 'f arith =
  f_lt :: "'f \<Rightarrow> 'f \<Rightarrow> bool"
  f_ge :: "'f \<Rightarrow> 'f \<Rightarrow> bool"
  f_eq :: "'f \<Rightarrow> 'f \<Rightarrow> bool"
  f_add :: "'f \<Rightarrow> 'f \<Rightarrow> 'f"
  f_sub :: "'f \<Rightarrow> 'f \<Rightarrow> 'f"
  f_mul :: "'f \<Rightarrow> 'f \<Rightarrow> 'f"
  f_div :: "'f \<Rightarrow> 'f \<Rightarrow> 'f"
  f_sqrt :: "'f \<Rightarrow> 'f"
  f_zero :: 'f
  f_one :: 'f

definition f32_arith :: "f32 arith" where
  "f32_arith =
     \<lparr>f_lt = f32_lt, f_ge = f32_ge, f_eq = f32_eq, f_add = f32_add, f_sub = f32_sub,
      f_mul = f32_mul, f_div = f32_div, f_sqrt = f32_sqrt, f_zero = Finite 0, f_one = Finite 1\<rparr>"

definition exact_arith :: "real arith" where
  "exact_arith =
     \<lparr>f_lt = (<), f_ge = (\<ge>), f_eq = (=), f_add = (+), f_sub = (-),
      f_mul = (*), f_div = (/), f_sqrt = sqrt, f_zero = 0, f_one = 1\<rparr>"

subsection \<open>Vectors\<close>

type_synonym float3 = "real \<times> real \<times> real"

text \<open>
  Modelled from the spec: the \<^verbatim>\<open>blender::math\<close> helpers used by the envelope code
  (\<^verbatim>\<open>square\<close>, \<^verbatim>\<open>dot\<close>, \<^verbatim>\<open>distance_squared\<close>, \<^verbatim>\<open>interpolate\<close>,
  \<^verbatim>\<open>normalize_and_get_length\<close> and the \<^verbatim>\<open>float3\<close> subtraction) are declared in headers
  that are outside \<^verbatim>\<open>armature_deform.cc\<close>. They are given their conventional meaning:
  the product of a number with itself, squared Euclidean distance, linear interpolation
  of the radius by the normalised projected position, and a normalisation that yields the zero axis and length zero for a
  degenerate zero-length bone (how short a vector the library still normalises is not
  visible from here; no statement below depends on it).
\<close>

definition square :: "'f arith \<Rightarrow> 'f \<Rightarrow> 'f" where
  "square A x = f_mul A x x"

fun sub_f3 :: "float3 \<Rightarrow> float3 \<Rightarrow> float3" where
  "sub_f3 (a0, a1, a2) (b0, b1, b2) = (a0 - b0, a1 - b1, a2 - b2)"

fun dot :: "float3 \<Rightarrow> float3 \<Rightarrow> real" where
  "dot (a0, a1, a2) (b0, b1, b2) = a0 * b0 + a1 * b1 + a2 * b2"

definition length_squared :: "float3 \<Rightarrow> real" where
  "length_squared v = dot v v"

definition distance_squared :: "float3 \<Rightarrow> float3 \<Rightarrow> real" where
  "distance_squared a b = length_squared (sub_f3 a b)"

definition interpolate :: "real \<Rightarrow> real \<Rightarrow> real \<Rightarrow> real" where
  "interpolate a b t = a * (1 - t) + b * t"

fun div_f3 :: "float3 \<Rightarrow> real \<Rightarrow> float3" where
  "div_f3 (a0, a1, a2) s = (a0 / s, a1 / s, a2 / s)"

definition normalize_and_get_length :: "float3 \<Rightarrow> float3 \<times> real" where
  "normalize_and_get_length v =
     (let l2 = length_squared v
      in if l2 > 0 then (div_f3 v (sqrt l2), sqrt l2) else ((0, 0, 0), 0))"

subsection \<open>Envelope falloff\<close>

text \<open>
  \<^verbatim>\<open>bone_envelope_falloff\<close>, lines 49-69, over the arithmetic \<open>A\<close> of \<^verbatim>\<open>float\<close>: the
  tests and the operations in the order of the source.
\<close>

definition bone_envelope_falloff :: "'f arith \<Rightarrow> 'f \<Rightarrow> 'f \<Rightarrow> 'f \<Rightarrow> 'f" where
  "bone_envelope_falloff A dist_squared closest_radius falloff_distance =
     (if f_lt A dist_squared (f_mul A closest_radius closest_radius) then f_one A
      else if f_eq A falloff_distance (f_zero A)
              \<or> f_ge A dist_squared (square A (f_add A closest_radius falloff_distance))
      then f_zero A
      else
        let dist_envelope = f_sub A (f_sqrt A dist_squared) closest_radius
        in f_sub A (f_one A)
             (f_div A (f_mul A dist_envelope dist_envelope)
                (f_mul A falloff_distance falloff_distance)))"

definition distfactor_to_bone ::
  "float3 \<Rightarrow> float3 \<Rightarrow> float3 \<Rightarrow> real \<Rightarrow> real \<Rightarrow> real \<Rightarrow> real" where
  "distfactor_to_bone position head tail radius_head radius_tail falloff_distance =
     (let (bone_axis, bone_length) = normalize_and_get_length (sub_f3 tail head);
          height = dot (sub_f3 position head) bone_axis
      in if height < 0 then
           bone_envelope_falloff exact_arith (distance_squared position head) radius_head
             falloff_distance
         else if height > bone_length then
           bone_envelope_falloff exact_arith (distance_squared tail position) radius_tail
             falloff_distance
         else
           let dist_squared = distance_squared position head - height * height;
               closest_radius =
                 (if bone_length \<noteq> 0
                  then interpolate radius_head radius_tail (height / bone_length)
                  else radius_head)
           in bone_envelope_falloff exact_arith dist_squared closest_radius falloff_distance)"

subsection \<open>Matrices\<close>

text \<open>
  Modelled from the spec: the \<^verbatim>\<open>BLI_math_vector\<close> and \<^verbatim>\<open>BLI_math_matrix\<close> routines
  called by the deformer are defined outside \<^verbatim>\<open>armature_deform.cc\<close>. A matrix is the tuple of its
  columns (\<^verbatim>\<open>m[column][row]\<close> in the C arrays); the routines below "transform the vertex
  by the bone's 4x4 matrix", "subtract the original position", "scale by weight" and
  "accumulate", and take the "linear (3x3) part" of a 4x4 matrix. A routine that writes
  through its first argument returns the new value of that argument.
\<close>

type_synonym float3x3 = "float3 \<times> float3 \<times> float3"
type_synonym float4 = "real \<times> real \<times> real \<times> real"
type_synonym float4x4 = "float4 \<times> float4 \<times> float4 \<times> float4"

definition zero_v3 :: float3 where
  "zero_v3 = (0, 0, 0)"

definition zero_m3 :: float3x3 where
  "zero_m3 = (zero_v3, zero_v3, zero_v3)"

fun mul_v3_fl :: "float3 \<Rightarrow> real \<Rightarrow> float3" where
  "mul_v3_fl (a0, a1, a2) f = (a0 * f, a1 * f, a2 * f)"

fun add_v3_v3v3 :: "float3 \<Rightarrow> float3 \<Rightarrow> float3" where
  "add_v3_v3v3 (a0, a1, a2) (b0, b1, b2) = (a0 + b0, a1 + b1, a2 + b2)"

definition add_v3_v3 :: "float3 \<Rightarrow> float3 \<Rightarrow> float3" where
  "add_v3_v3 r a = add_v3_v3v3 r a"

definition sub_v3_v3 :: "float3 \<Rightarrow> float3 \<Rightarrow> float3" where
  "sub_v3_v3 r a = sub_f3 r a"

definition madd_v3_v3fl :: "float3 \<Rightarrow> float3 \<Rightarrow> real \<Rightarrow> float3" where
  "madd_v3_v3fl r a f = add_v3_v3v3 r (mul_v3_fl a f)"

fun mul_m3_v3 :: "float3x3 \<Rightarrow> float3 \<Rightarrow> float3" where
  "mul_m3_v3 (c0, c1, c2) (x, y, z) =
     add_v3_v3v3 (add_v3_v3v3 (mul_v3_fl c0 x) (mul_v3_fl c1 y)) (mul_v3_fl c2 z)"

fun mul_m3_m3m3 :: "float3x3 \<Rightarrow> float3x3 \<Rightarrow> float3x3" where
  "mul_m3_m3m3 A (b0, b1, b2) = (mul_m3_v3 A b0, mul_m3_v3 A b1, mul_m3_v3 A b2)"

fun mul_m3_fl :: "float3x3 \<Rightarrow> real \<Rightarrow> float3x3" where
  "mul_m3_fl (c0, c1, c2) f = (mul_v3_fl c0 f, mul_v3_fl c1 f, mul_v3_fl c2 f)"

fun madd_m3_m3m3fl :: "float3x3 \<Rightarrow> float3x3 \<Rightarrow> real \<Rightarrow> float3x3" where
  "madd_m3_m3m3fl (a0, a1, a2) (b0, b1, b2) f =
     (madd_v3_v3fl a0 b0 f, madd_v3_v3fl a1 b1 f, madd_v3_v3fl a2 b2 f)"

definition mul_m3_series :: "float3x3 \<Rightarrow> float3x3 \<Rightarrow> float3x3 \<Rightarrow> float3x3 \<Rightarrow> float3x3" where
  "mul_m3_series a b c d = mul_m3_m3m3 (mul_m3_m3m3 (mul_m3_m3m3 a b) c) d"

fun xyz :: "float4 \<Rightarrow> float3" where
  "xyz (a0, a1, a2, a3) = (a0, a1, a2)"

fun copy_m3_m4 :: "float4x4 \<Rightarrow> float3x3" where
  "copy_m3_m4 (c0, c1, c2, c3) = (xyz c0, xyz c1, xyz c2)"

fun mul_v3_m4v3 :: "float4x4 \<Rightarrow> float3 \<Rightarrow> float3" where
  "mul_v3_m4v3 (c0, c1, c2, c3) v = add_v3_v3v3 (mul_m3_v3 (xyz c0, xyz c1, xyz c2) v) (xyz c3)"

definition mul_m4_v3 :: "float4x4 \<Rightarrow> float3 \<Rightarrow> float3" where
  "mul_m4_v3 M r = mul_v3_m4v3 M r"

fun mul_v4_fl :: "float4 \<Rightarrow> real \<Rightarrow> float4" where
  "mul_v4_fl (a0, a1, a2, a3) f = (a0 * f, a1 * f, a2 * f, a3 * f)"

fun add_v4_v4v4 :: "float4 \<Rightarrow> float4 \<Rightarrow> float4" where
  "add_v4_v4v4 (a0, a1, a2, a3) (b0, b1, b2, b3) = (a0 + b0, a1 + b1, a2 + b2, a3 + b3)"

fun mul_m4_v4 :: "float4x4 \<Rightarrow> float4 \<Rightarrow> float4" where
  "mul_m4_v4 (c0, c1, c2, c3) (x, y, z, w) =
     add_v4_v4v4 (add_v4_v4v4 (add_v4_v4v4 (mul_v4_fl c0 x) (mul_v4_fl c1 y)) (mul_v4_fl c2 z))
       (mul_v4_fl c3 w)"

fun mul_m4_m4m4 :: "float4x4 \<Rightarrow> float4x4 \<Rightarrow> float4x4" where
  "mul_m4_m4m4 A (b0, b1, b2, b3) = (mul_m4_v4 A b0, mul_m4_v4 A b1, mul_m4_v4 A b2, mul_m4_v4 A b3)"

definition unit_m4 :: float4x4 where
  "unit_m4 = ((1, 0, 0, 0), (0, 1, 0, 0), (0, 0, 1, 0), (0, 0, 0, 1))"

subsection \<open>Bones, pose channels and vertex groups\<close>

text \<open>
  The DNA structs, with the fields the deformer reads. A bit test
  \<^verbatim>\<open>flag & BONE_NO_DEFORM\<close> is membership of the flag in the set of flags that are set; a
  pointer that may be null is an \<open>option\<close>; an array with its length is a list; the
  \<^verbatim>\<open>ListBase\<close> of pose channels is the list of its elements.
\<close>

datatype eBone_Flag = BONE_MULT_VG_ENV | BONE_NO_DEFORM

record Bone =
  arm_head :: float3
  arm_tail :: float3
  rad_head :: real
  rad_tail :: real
  bone_dist :: real
  bone_weight :: real
  segments :: int
  bone_flag :: "eBone_Flag set"

record 'dq bPoseChannel =
  pchan_name :: string
  pchan_bone :: "Bone option"
  chan_mat :: float4x4
  deform_dual_quat :: 'dq
  bbone_segments :: int
  bbone_dual_quats :: "'dq list"
  bbone_deform_mats :: "float4x4 list"

record MDeformWeight =
  def_nr :: nat
  dw_weight :: real

record MDeformVert =
  dw :: "MDeformWeight list"

definition totweight :: "MDeformVert \<Rightarrow> nat" where
  "totweight dvert = length (dw dvert)"

subsection \<open>What the source leaves undefined, and what it takes from elsewhere\<close>

text \<open>
  Dereferencing a null pointer, reading an array out of range and using a data block
  through a cast to another kind are undefined in C++; the model makes each a fault, and
  so is a failed \<^verbatim>\<open>BLI_assert\<close> in a build where a failed assertion aborts.
\<close>

datatype fault = Assert_Failed | Null_Deref | Out_Of_Bounds | Bad_Cast

text \<open>
  The dual-quaternion kernel (\<^verbatim>\<open>BLI_math_rotation\<close>), the B-Bone segment lookup
  (\<^verbatim>\<open>BKE_armature\<close>) and the 4x4 inverse are defined outside this file, and
  whether \<^verbatim>\<open>BLI_assert\<close> aborts is a build option. They are parameters of the model: the
  type \<open>'dq\<close> stands for \<^verbatim>\<open>DualQuat\<close>, \<open>dq_zero\<close> for its zero-initialised value.
  \<open>mul_v3m3_dq r want_R dq\<close> returns the new \<open>r\<close> and the matrix written to \<open>R\<close> (which
  the caller reads only when it passed a non-null \<open>R\<close>).
\<close>

record 'dq env =
  assert_aborts :: bool
  dq_zero :: 'dq
  add_weighted_dq_dq_pivot :: "'dq \<Rightarrow> 'dq \<Rightarrow> float3 \<Rightarrow> real \<Rightarrow> bool \<Rightarrow> 'dq"
  normalize_dq :: "'dq \<Rightarrow> real \<Rightarrow> 'dq"
  mul_v3m3_dq :: "float3 \<Rightarrow> bool \<Rightarrow> 'dq \<Rightarrow> float3 \<times> float3x3"
  BKE_pchan_bbone_deform_segment_index :: "'dq bPoseChannel \<Rightarrow> float3 \<Rightarrow> int \<times> real"
  invert_m4_m4 :: "float4x4 \<Rightarrow> float4x4"

definition nth_opt :: "'a list \<Rightarrow> nat \<Rightarrow> 'a option" where
  "nth_opt xs i = (if i < length xs then Some (xs ! i) else None)"

definition nth_int :: "'a list \<Rightarrow> int \<Rightarrow> 'a option" where
  "nth_int xs i = (if 0 \<le> i then nth_opt xs (nat i) else None)"

subsection \<open>Accumulating one bone or one B-Bone segment\<close>

text \<open>
  The three accumulator pointers \<^verbatim>\<open>co_accum\<close>, \<^verbatim>\<open>dq_accum\<close> and \<^verbatim>\<open>mat_accum\<close> of the
  source, each \<open>None\<close> when the pointer is null and otherwise the value it points to.
\<close>

record 'dq accum =
  co_accum :: "float3 option"
  dq_accum :: "'dq option"
  mat_accum :: "float3x3 option"

definition pchan_deform_accumulate ::
  "'dq env \<Rightarrow> 'dq option \<Rightarrow> float4x4 option \<Rightarrow> float3 \<Rightarrow> real \<Rightarrow> 'dq accum \<Rightarrow> bool
     \<Rightarrow> fault + 'dq accum" where
  "pchan_deform_accumulate e deform_dq deform_mat co_in weight acc full_deform =
     (if weight = 0 then Inr acc
      else case dq_accum acc of
        Some dq_sum \<Rightarrow>
          if assert_aborts e \<and> co_accum acc \<noteq> None then Inl Assert_Failed
          else (case deform_dq of
                  None \<Rightarrow> Inl Out_Of_Bounds
                | Some dq \<Rightarrow>
                    Inr (acc\<lparr>dq_accum :=
                           Some (add_weighted_dq_dq_pivot e dq_sum dq co_in weight full_deform)\<rparr>))
      | None \<Rightarrow>
          (case deform_mat of
             None \<Rightarrow> Inl Out_Of_Bounds
           | Some mat \<Rightarrow>
               (case co_accum acc of
                  None \<Rightarrow> Inl Null_Deref
                | Some vec \<Rightarrow>
                    let tmp = mul_v3_m4v3 mat co_in;
                        tmp = sub_v3_v3 tmp co_in;
                        acc1 = acc\<lparr>co_accum := Some (madd_v3_v3fl vec tmp weight)\<rparr>
                    in if full_deform then
                         (case mat_accum acc1 of
                            None \<Rightarrow> Inl Null_Deref
                          | Some smat \<Rightarrow>
                              let tmpmat = copy_m3_m4 mat
                              in Inr (acc1\<lparr>mat_accum :=
                                          Some (madd_m3_m3m3fl smat tmpmat weight)\<rparr>))
                       else Inr acc1)))"

definition b_bone_deform ::
  "'dq env \<Rightarrow> 'dq bPoseChannel \<Rightarrow> float3 \<Rightarrow> real \<Rightarrow> 'dq accum \<Rightarrow> bool \<Rightarrow> fault + 'dq accum" where
  "b_bone_deform e pchan co weight acc full_deform =
     (let quats = bbone_dual_quats pchan;
          mats = bbone_deform_mats pchan;
          (index, blend) = BKE_pchan_bbone_deform_segment_index e pchan co
      in case pchan_deform_accumulate e (nth_int quats index) (nth_int mats (index + 1)) co
                (weight * (1 - blend)) acc full_deform of
           Inl f \<Rightarrow> Inl f
         | Inr acc1 \<Rightarrow>
             pchan_deform_accumulate e (nth_int quats (index + 1)) (nth_int mats (index + 2)) co
               (weight * blend) acc1 full_deform)"

definition dist_bone_deform ::
  "'dq env \<Rightarrow> 'dq bPoseChannel \<Rightarrow> 'dq accum \<Rightarrow> float3 \<Rightarrow> bool \<Rightarrow> fault + 'dq accum \<times> real" where
  "dist_bone_deform e pchan acc co full_deform =
     (case pchan_bone pchan of
        None \<Rightarrow> Inr (acc, 0)
      | Some bone \<Rightarrow>
          let fac = distfactor_to_bone co (arm_head bone) (arm_tail bone) (rad_head bone)
                      (rad_tail bone) (bone_dist bone)
          in if fac > 0 then
               let fac = fac * bone_weight bone;
                   contrib = fac
               in if contrib > 0 then
                    (case (if segments bone > 1 \<and> bbone_segments pchan = segments bone
                           then b_bone_deform e pchan co fac acc full_deform
                           else pchan_deform_accumulate e (Some (deform_dual_quat pchan))
                                  (Some (chan_mat pchan)) co fac acc full_deform) of
                       Inl f \<Rightarrow> Inl f
                     | Inr acc1 \<Rightarrow> Inr (acc1, contrib))
                  else Inr (acc, contrib)
             else Inr (acc, 0))"

definition pchan_bone_deform ::
  "'dq env \<Rightarrow> 'dq bPoseChannel \<Rightarrow> real \<Rightarrow> 'dq accum \<Rightarrow> float3 \<Rightarrow> bool \<Rightarrow> real
     \<Rightarrow> fault + 'dq accum \<times> real" where
  "pchan_bone_deform e pchan weight acc co full_deform contrib =
     (if weight = 0 then Inr (acc, contrib)
      else case pchan_bone pchan of
        None \<Rightarrow> Inl Null_Deref
      | Some bone \<Rightarrow>
          (case (if segments bone > 1 \<and> bbone_segments pchan = segments bone
                 then b_bone_deform e pchan co weight acc full_deform
                 else pchan_deform_accumulate e (Some (deform_dual_quat pchan))
                        (Some (chan_mat pchan)) co weight acc full_deform) of
             Inl f \<Rightarrow> Inl f
           | Inr acc1 \<Rightarrow> Inr (acc1, contrib + weight)))"

subsection \<open>Objects and the data shared by a vertex batch\<close>

datatype ePose_Flag = POSE_RECALC

record 'dq bPose =
  pose_flag :: "ePose_Flag set"
  chanbase :: "'dq bPoseChannel list"

record bArmature =
  edbo :: "string list option"

text \<open>
  A \<^verbatim>\<open>Span<MDeformVert>\<close> is its data pointer and its size; \<open>deform_verts\<close> of a mesh
  is the empty span when the mesh has no deform-vertex layer.
\<close>

record Span =
  span_data :: "MDeformVert list option"
  span_size :: nat

definition empty_span :: Span where
  "empty_span = \<lparr>span_data = None, span_size = 0\<rparr>"

record Mesh =
  verts_num :: nat
  dvert_layer :: "MDeformVert list option"
  vertex_group_names :: "string list"

definition deform_verts :: "Mesh \<Rightarrow> Span" where
  "deform_verts me =
     (case dvert_layer me of
        None \<Rightarrow> empty_span
      | Some dvs \<Rightarrow> \<lparr>span_data = Some dvs, span_size = verts_num me\<rparr>)"

record Lattice =
  lt_dvert :: "MDeformVert list option"
  pntsu :: nat
  pntsv :: nat
  pntsw :: nat
  lt_vertex_group_names :: "string list"

text \<open>
  The editable mesh: the offset of the deform-vertex layer in the vertex custom data
  (\<open>-1\<close> when there is no such layer) and the pool of vertices, each with the
  \<^verbatim>\<open>MDeformVert\<close> of its custom-data block. After \<^verbatim>\<open>BM_mesh_elem_index_ensure\<close> the
  index of a vertex is its position in the pool.
\<close>

record BMVert =
  bm_dvert :: "MDeformVert option"

record BMEditMesh =
  bm_cd_dvert_offset :: int
  vpool :: "BMVert list"

text \<open>
  The data block of an object, by its kind; the kind of the block is the type of the
  object (\<^verbatim>\<open>ob->type\<close>). A block of any other kind carries its vertex-group names when
  its kind supports vertex groups.
\<close>

datatype ID = ID_AR bArmature | ID_ME Mesh | ID_LT Lattice | ID_OTHER "string list option"

datatype eObjectType = OB_ARMATURE | OB_MESH | OB_LATTICE | OB_OTHER

record 'dq Object =
  id_name :: string
  ob_data :: ID
  pose :: "'dq bPose option"
  object_to_world :: float4x4

definition ob_type :: "'dq Object \<Rightarrow> eObjectType" where
  "ob_type ob =
     (case ob_data ob of
        ID_AR _ \<Rightarrow> OB_ARMATURE
      | ID_ME _ \<Rightarrow> OB_MESH
      | ID_LT _ \<Rightarrow> OB_LATTICE
      | ID_OTHER _ \<Rightarrow> OB_OTHER)"

text \<open>
  \<^verbatim>\<open>ArmatureUserdata\<close>. Its three buffer pointers are the state the tasks change; they are
  kept apart in \<open>buffers\<close>, where an absent (null) optional buffer is \<open>None\<close>.
\<close>

record 'dq ArmatureUserdata =
  ob_arm :: "'dq Object"
  me_target :: "Mesh option"
  use_envelope :: bool
  use_quaternion :: bool
  invert_vgroup :: bool
  use_dverts :: bool
  armature_def_nr :: int
  dverts :: "MDeformVert list option"
  dverts_len :: nat
  pchan_from_defbase :: "'dq bPoseChannel option list"
  defbase_len :: nat
  premat :: float4x4
  postmat :: float4x4
  cd_dvert_offset :: int

record buffers =
  vert_coords :: "float3 list"
  vert_deform_mats :: "float3x3 list option"
  vert_coords_prev :: "float3 list option"

text \<open>
  Modelled from the spec: \<^verbatim>\<open>BKE_defvert_find_weight\<close> (of \<^verbatim>\<open>BKE_deform\<close>, defined
  outside this file) resolves the weight of a vertex in one vertex group: the weight of
  its entry for that group, and 0 when it has none.
\<close>

definition BKE_defvert_find_weight :: "MDeformVert \<Rightarrow> int \<Rightarrow> real" where
  "BKE_defvert_find_weight dvert defgroup =
     (case find (\<lambda>d. int (def_nr d) = defgroup) (dw dvert) of
        Some d \<Rightarrow> dw_weight d
      | None \<Rightarrow> 0)"

subsection \<open>The per-vertex driver\<close>

text \<open>Lines 278-300: the accumulators selected by the blending mode.\<close>

definition init_accum :: "'dq env \<Rightarrow> bool \<Rightarrow> bool \<Rightarrow> 'dq accum" where
  "init_accum e use_quat full_deform =
     (if use_quat then \<lparr>co_accum = None, dq_accum = Some (dq_zero e), mat_accum = None\<rparr>
      else \<lparr>co_accum = Some zero_v3, dq_accum = None,
             mat_accum = (if full_deform then Some zero_m3 else None)\<rparr>)"

text \<open>
  Lines 284-316: \<open>(armature_weight, prevco_weight)\<close>, from the overall vertex group and
  from whether a buffer of previous coordinates is supplied.
\<close>

definition vertex_weights ::
  "'dq ArmatureUserdata \<Rightarrow> MDeformVert option \<Rightarrow> bool \<Rightarrow> real \<times> real" where
  "vertex_weights data dvert has_prev =
     (case dvert of
        None \<Rightarrow> (1, 0)
      | Some dv \<Rightarrow>
          if armature_def_nr data \<noteq> - 1 then
            let armature_weight = BKE_defvert_find_weight dv (armature_def_nr data);
                armature_weight =
                  (if invert_vgroup data then 1 - armature_weight else armature_weight)
            in if has_prev then (1, 1 - armature_weight) else (armature_weight, 0)
          else (1, 0))"

text \<open>Lines 343-364: the loop over the weights of the vertex, from the first entry on.\<close>

fun dvert_loop ::
  "'dq env \<Rightarrow> 'dq ArmatureUserdata \<Rightarrow> float3 \<Rightarrow> bool \<Rightarrow> MDeformWeight list
     \<Rightarrow> nat \<times> 'dq accum \<times> real \<Rightarrow> fault + nat \<times> 'dq accum \<times> real" where
  "dvert_loop e data co full_deform [] st = Inr st"
| "dvert_loop e data co full_deform (d # ds) (deformed, acc, contrib) =
     (let index = def_nr d
      in if index \<ge> defbase_len data then
           dvert_loop e data co full_deform ds (deformed, acc, contrib)
         else
           (case nth_opt (pchan_from_defbase data) index of
              None \<Rightarrow> Inl Out_Of_Bounds
            | Some None \<Rightarrow> dvert_loop e data co full_deform ds (deformed, acc, contrib)
            | Some (Some pchan) \<Rightarrow>
                let weight = dw_weight d;
                    weight =
                      (case pchan_bone pchan of
                         None \<Rightarrow> weight
                       | Some bone \<Rightarrow>
                           if BONE_MULT_VG_ENV \<in> bone_flag bone then
                             weight * distfactor_to_bone co (arm_head bone) (arm_tail bone)
                                        (rad_head bone) (rad_tail bone) (bone_dist bone)
                           else weight)
                in (case pchan_bone_deform e pchan weight acc co full_deform contrib of
                      Inl f \<Rightarrow> Inl f
                    | Inr (acc1, contrib1) \<Rightarrow>
                        dvert_loop e data co full_deform ds (1, acc1, contrib1))))"

text \<open>Lines 367-373 and 377-383: the loop over every pose channel of the armature.\<close>

fun envelope_loop ::
  "'dq env \<Rightarrow> 'dq bPoseChannel list \<Rightarrow> float3 \<Rightarrow> bool \<Rightarrow> 'dq accum \<times> real
     \<Rightarrow> fault + 'dq accum \<times> real" where
  "envelope_loop e [] co full_deform st = Inr st"
| "envelope_loop e (pchan # rest) co full_deform (acc, contrib) =
     (case pchan_bone pchan of
        None \<Rightarrow> Inl Null_Deref
      | Some bone \<Rightarrow>
          if BONE_NO_DEFORM \<notin> bone_flag bone then
            (case dist_bone_deform e pchan acc co full_deform of
               Inl f \<Rightarrow> Inl f
             | Inr (acc1, c) \<Rightarrow> envelope_loop e rest co full_deform (acc1, contrib + c))
          else envelope_loop e rest co full_deform (acc, contrib))"

definition envelope_deform ::
  "'dq env \<Rightarrow> 'dq ArmatureUserdata \<Rightarrow> float3 \<Rightarrow> bool \<Rightarrow> 'dq accum \<times> real
     \<Rightarrow> fault + 'dq accum \<times> real" where
  "envelope_deform e data co full_deform st =
     (case pose (ob_arm data) of
        None \<Rightarrow> Inl Null_Deref
      | Some p \<Rightarrow> envelope_loop e (chanbase p) co full_deform st)"

text \<open>Lines 339-384: which bones are accumulated for the vertex.\<close>

definition accumulate_bones ::
  "'dq env \<Rightarrow> 'dq ArmatureUserdata \<Rightarrow> MDeformVert option \<Rightarrow> float3 \<Rightarrow> bool \<Rightarrow> 'dq accum
     \<Rightarrow> fault + 'dq accum \<times> real" where
  "accumulate_bones e data dvert co full_deform acc0 =
     (let no_groups =
            (if use_envelope data then envelope_deform e data co full_deform (acc0, 0)
             else Inr (acc0, 0))
      in case dvert of
           None \<Rightarrow> no_groups
         | Some dv \<Rightarrow>
             if use_dverts data \<and> totweight dv \<noteq> 0 then
               (case dvert_loop e data co full_deform (dw dv) (0, acc0, 0) of
                  Inl f \<Rightarrow> Inl f
                | Inr (deformed, acc, contrib) \<Rightarrow>
                    if deformed = 0 \<and> use_envelope data then
                      envelope_deform e data co full_deform (acc, contrib)
                    else Inr (acc, contrib))
             else no_groups)"

text \<open>
  Lines 386-422: the accumulated deformation applied to the coordinate and, when
  requested, to the deformation matrix of vertex \<open>i\<close>.
\<close>

definition apply_accum ::
  "'dq env \<Rightarrow> 'dq ArmatureUserdata \<Rightarrow> nat \<Rightarrow> real \<Rightarrow> 'dq accum \<Rightarrow> real \<Rightarrow> float3
     \<Rightarrow> float3x3 list option \<Rightarrow> fault + float3 \<times> float3x3 list option" where
  "apply_accum e data i armature_weight acc contrib co mats =
     (if contrib > 0.0001 then
        let full_deform = (mats \<noteq> None);
            moved =
              (if use_quaternion data then
                 (case dq_accum acc of
                    None \<Rightarrow> Inl Null_Deref
                  | Some dq0 \<Rightarrow>
                      let dq = normalize_dq e dq0 contrib;
                          (r, summat) = mul_v3m3_dq e co full_deform dq;
                          smat = (if full_deform then Some summat else mat_accum acc)
                      in if armature_weight \<noteq> 1 then
                           let dco = sub_v3_v3 r co;
                               dco = mul_v3_fl dco armature_weight
                           in Inr (add_v3_v3 co dco, smat)
                         else Inr (r, smat))
               else
                 (case co_accum acc of
                    None \<Rightarrow> Inl Null_Deref
                  | Some vec \<Rightarrow>
                      let vec = mul_v3_fl vec (armature_weight / contrib)
                      in Inr (add_v3_v3v3 vec co, mat_accum acc)))
        in case moved of
             Inl f \<Rightarrow> Inl f
           | Inr (co1, smat) \<Rightarrow>
               (case mats of
                  None \<Rightarrow> Inr (co1, mats)
                | Some ms \<Rightarrow>
                    let pre = copy_m3_m4 (premat data);
                        post = copy_m3_m4 (postmat data)
                    in (case nth_opt ms i of
                          None \<Rightarrow> Inl Out_Of_Bounds
                        | Some tmpmat \<Rightarrow>
                            (case smat of
                               None \<Rightarrow> Inl Null_Deref
                             | Some sm \<Rightarrow>
                                 let sm = (if \<not> use_quaternion data
                                           then mul_m3_fl sm (armature_weight / contrib)
                                           else sm)
                                 in Inr (co1, Some (ms[i := mul_m3_series post sm pre tmpmat])))))
      else Inr (co, mats))"

text \<open>
  Lines 336-425: the work on the coordinate \<open>co\<close> of a vertex that is not skipped, from
  the pre-transform to the post-transform.
\<close>

definition deform_co ::
  "'dq env \<Rightarrow> 'dq ArmatureUserdata \<Rightarrow> nat \<Rightarrow> MDeformVert option \<Rightarrow> real \<Rightarrow> float3
     \<Rightarrow> float3x3 list option \<Rightarrow> fault + float3 \<times> float3x3 list option" where
  "deform_co e data i dvert armature_weight co mats =
     (let full_deform = (mats \<noteq> None);
          co = mul_m4_v3 (premat data) co
      in case accumulate_bones e data dvert co full_deform
                (init_accum e (use_quaternion data) full_deform) of
           Inl f \<Rightarrow> Inl f
         | Inr (acc, contrib) \<Rightarrow>
             (case apply_accum e data i armature_weight acc contrib co mats of
                Inl f \<Rightarrow> Inl f
              | Inr (co, mats1) \<Rightarrow> Inr (mul_m4_v3 (postmat data) co, mats1)))"

fun blend_prev :: "real \<Rightarrow> float3 \<Rightarrow> float3 \<Rightarrow> float3" where
  "blend_prev prevco_weight (v0, v1, v2) (co0, co1, co2) =
     (let mw = 1 - prevco_weight
      in (prevco_weight * v0 + mw * co0, prevco_weight * v1 + mw * co1,
          prevco_weight * v2 + mw * co2))"

definition armature_vert_task_with_dvert ::
  "'dq env \<Rightarrow> 'dq ArmatureUserdata \<Rightarrow> nat \<Rightarrow> MDeformVert option \<Rightarrow> buffers
     \<Rightarrow> fault + buffers" where
  "armature_vert_task_with_dvert e data i dvert bufs =
     (let (armature_weight, prevco_weight) =
            vertex_weights data dvert (vert_coords_prev bufs \<noteq> None)
      in case vert_coords_prev bufs of
           Some prev \<Rightarrow>
             if prevco_weight = 1 then Inr bufs
             else
               (case nth_opt prev i of
                  None \<Rightarrow> Inl Out_Of_Bounds
                | Some co \<Rightarrow>
                    (case deform_co e data i dvert armature_weight co (vert_deform_mats bufs) of
                       Inl f \<Rightarrow> Inl f
                     | Inr (co1, mats) \<Rightarrow>
                         (case nth_opt (vert_coords bufs) i of
                            None \<Rightarrow> Inl Out_Of_Bounds
                          | Some v \<Rightarrow>
                              Inr (bufs\<lparr>vert_coords :=
                                           (vert_coords bufs)[i := blend_prev prevco_weight v co1],
                                         vert_deform_mats := mats,
                                         vert_coords_prev := Some (prev[i := co1])\<rparr>))))
         | None \<Rightarrow>
             if armature_weight = 0 then Inr bufs
             else
               (case nth_opt (vert_coords bufs) i of
                  None \<Rightarrow> Inl Out_Of_Bounds
                | Some co \<Rightarrow>
                    (case deform_co e data i dvert armature_weight co (vert_deform_mats bufs) of
                       Inl f \<Rightarrow> Inl f
                     | Inr (co1, mats) \<Rightarrow>
                         Inr (bufs\<lparr>vert_coords := (vert_coords bufs)[i := co1],
                                    vert_deform_mats := mats\<rparr>))))"

subsection \<open>The tasks of a batch\<close>

definition armature_vert_task ::
  "'dq env \<Rightarrow> 'dq ArmatureUserdata \<Rightarrow> nat \<Rightarrow> buffers \<Rightarrow> fault + buffers" where
  "armature_vert_task e data i bufs =
     (let found =
            (if use_dverts data \<or> armature_def_nr data \<noteq> - 1 then
               (case me_target data of
                  Some me \<Rightarrow>
                    if assert_aborts e \<and> verts_num me \<le> i then Inl Assert_Failed
                    else
                      (case dverts data of
                         Some dvs \<Rightarrow>
                           (case nth_opt dvs i of
                              None \<Rightarrow> Inl Out_Of_Bounds
                            | Some dv \<Rightarrow> Inr (Some dv))
                       | None \<Rightarrow> Inr None)
                | None \<Rightarrow>
                    (case dverts data of
                       Some dvs \<Rightarrow>
                         if i < dverts_len data then
                           (case nth_opt dvs i of
                              None \<Rightarrow> Inl Out_Of_Bounds
                            | Some dv \<Rightarrow> Inr (Some dv))
                         else Inr None
                     | None \<Rightarrow> Inr None))
             else Inr None)
      in case found of
           Inl f \<Rightarrow> Inl f
         | Inr dvert \<Rightarrow> armature_vert_task_with_dvert e data i dvert bufs)"

definition armature_vert_task_editmesh ::
  "'dq env \<Rightarrow> 'dq ArmatureUserdata \<Rightarrow> nat \<times> BMVert \<Rightarrow> buffers \<Rightarrow> fault + buffers" where
  "armature_vert_task_editmesh e data iter bufs =
     (let (i, v) = iter
      in armature_vert_task_with_dvert e data i (bm_dvert v) bufs)"

definition armature_vert_task_editmesh_no_dvert ::
  "'dq env \<Rightarrow> 'dq ArmatureUserdata \<Rightarrow> nat \<times> BMVert \<Rightarrow> buffers \<Rightarrow> fault + buffers" where
  "armature_vert_task_editmesh_no_dvert e data iter bufs =
     (let (i, v) = iter
      in armature_vert_task_with_dvert e data i None bufs)"

text \<open>
  \<^verbatim>\<open>BLI_task_parallel_range\<close> and \<^verbatim>\<open>BLI_task_parallel_mempool\<close> run one task per index
  or per pool element. A task reads and writes only the slots of its own vertex, so the
  tasks are run here one after the other, in index order; a fault in one of them is the
  outcome of the batch.
\<close>

fun run_tasks :: "('a \<Rightarrow> buffers \<Rightarrow> fault + buffers) \<Rightarrow> 'a list \<Rightarrow> buffers \<Rightarrow> fault + buffers" where
  "run_tasks task [] bufs = Inr bufs"
| "run_tasks task (x # xs) bufs =
     (case task x bufs of
        Inl f \<Rightarrow> Inl f
      | Inr bufs1 \<Rightarrow> run_tasks task xs bufs1)"

definition BLI_task_parallel_range ::
  "nat \<Rightarrow> nat \<Rightarrow> (nat \<Rightarrow> buffers \<Rightarrow> fault + buffers) \<Rightarrow> buffers \<Rightarrow> fault + buffers" where
  "BLI_task_parallel_range start stop task bufs = run_tasks task [start..<stop] bufs"

definition BLI_task_parallel_mempool ::
  "BMVert list \<Rightarrow> (nat \<times> BMVert \<Rightarrow> buffers \<Rightarrow> fault + buffers) \<Rightarrow> buffers
     \<Rightarrow> fault + buffers" where
  "BLI_task_parallel_mempool pool task bufs = run_tasks task (enumerate 0 pool) bufs"

subsection \<open>The batch driver\<close>

datatype eArmature_DeformFlag =
  ARM_DEF_VGROUP | ARM_DEF_ENVELOPE | ARM_DEF_QUATERNION | ARM_DEF_INVERT_VGROUP

text \<open>
  Modelled from the spec: the lookups by name and the vertex-group queries
  (\<^verbatim>\<open>BKE_defgroup_name_index\<close>, \<^verbatim>\<open>BKE_pose_channel_find_name\<close>,
  \<^verbatim>\<open>BKE_id_supports_vertex_groups\<close>, \<^verbatim>\<open>BKE_object_supports_vertex_groups\<close>,
  \<^verbatim>\<open>BKE_id_defgroup_list_get\<close>) are defined outside this file. The "overall"
  vertex group is found by its name, "empty/absent = none" giving \<open>-1\<close>; a pose channel
  is found by the name of the vertex group; meshes and lattices carry vertex groups, as
  may data blocks of other kinds. A list of vertex groups is the list of their names, and
  \<open>None\<close> when the pointer to the list is null.
\<close>

fun name_index_from :: "int \<Rightarrow> string list \<Rightarrow> string \<Rightarrow> int" where
  "name_index_from k [] nm = - 1"
| "name_index_from k (g # gs) nm = (if g = nm then k else name_index_from (k + 1) gs nm)"

definition BKE_defgroup_name_index :: "string list \<Rightarrow> string \<Rightarrow> int" where
  "BKE_defgroup_name_index defbase nm = (if nm = [] then - 1 else name_index_from 0 defbase nm)"

definition BKE_pose_channel_find_name :: "'dq bPose \<Rightarrow> string \<Rightarrow> 'dq bPoseChannel option" where
  "BKE_pose_channel_find_name p nm =
     (if nm = [] then None else find (\<lambda>pchan. pchan_name pchan = nm) (chanbase p))"

definition BKE_id_defgroup_list_get :: "ID \<Rightarrow> string list option" where
  "BKE_id_defgroup_list_get ident =
     (case ident of
        ID_ME me \<Rightarrow> Some (vertex_group_names me)
      | ID_LT lt \<Rightarrow> Some (lt_vertex_group_names lt)
      | ID_OTHER names \<Rightarrow> names
      | ID_AR _ \<Rightarrow> None)"

definition BKE_id_supports_vertex_groups :: "ID \<Rightarrow> bool" where
  "BKE_id_supports_vertex_groups ident = (BKE_id_defgroup_list_get ident \<noteq> None)"

definition BKE_object_supports_vertex_groups :: "'dq Object \<Rightarrow> bool" where
  "BKE_object_supports_vertex_groups ob = BKE_id_supports_vertex_groups (ob_data ob)"

text \<open>Lines 541-555: the table from vertex-group index to deforming pose channel.\<close>

fun build_pchan_from_defbase ::
  "'dq bPose \<Rightarrow> string list \<Rightarrow> fault + 'dq bPoseChannel option list" where
  "build_pchan_from_defbase p [] = Inr []"
| "build_pchan_from_defbase p (dg # rest) =
     (let entry =
            (case BKE_pose_channel_find_name p dg of
               None \<Rightarrow> Inr None
             | Some pchan \<Rightarrow>
                 (case pchan_bone pchan of
                    None \<Rightarrow> Inl Null_Deref
                  | Some bone \<Rightarrow>
                      if BONE_NO_DEFORM \<in> bone_flag bone then Inr None else Inr (Some pchan)))
      in case entry of
           Inl f \<Rightarrow> Inl f
         | Inr x \<Rightarrow>
             (case build_pchan_from_defbase p rest of
                Inl f \<Rightarrow> Inl f
              | Inr xs \<Rightarrow> Inr (x # xs)))"

definition pose_recalc_message :: "string \<Rightarrow> string" where
  "pose_recalc_message nm =
     ''Trying to evaluate influence of armature '' @ [CHR 0x27] @ nm @ [CHR 0x27]
       @ '' which needs Pose recalc!''"

text \<open>
  Lines 500-558: the vertex-group setup, giving the locals \<open>armature_def_nr\<close>,
  \<open>defbase_len\<close>, \<open>use_dverts\<close>, \<open>cd_dvert_offset\<close> and \<open>pchan_from_defbase\<close> (the
  empty table when the pointer stays null).
\<close>

definition vgroup_setup ::
  "'dq bPose \<Rightarrow> 'dq Object \<Rightarrow> string list option \<Rightarrow> nat \<Rightarrow> eArmature_DeformFlag set
     \<Rightarrow> string \<Rightarrow> Span \<Rightarrow> Mesh option \<Rightarrow> BMEditMesh option
     \<Rightarrow> fault + int \<times> nat \<times> bool \<times> int \<times> 'dq bPoseChannel option list" where
  "vgroup_setup p ob_target defbase vert_coords_len deformflag defgrp_name dverts_in
       me_target_in em_target =
     (if BKE_object_supports_vertex_groups ob_target then
        (case defbase of
           None \<Rightarrow> Inl Null_Deref
         | Some groups \<Rightarrow>
             let def_nr1 = BKE_defgroup_name_index groups defgrp_name;
                 len1 = length groups
             in if ARM_DEF_VGROUP \<in> deformflag then
                  let offset =
                        (case em_target of
                           Some em \<Rightarrow> bm_cd_dvert_offset em
                         | None \<Rightarrow> - 1);
                      use =
                        (case em_target of
                           Some em \<Rightarrow> offset \<noteq> - 1
                         | None \<Rightarrow>
                             (case me_target_in of
                                Some me \<Rightarrow> span_size (deform_verts me) \<noteq> 0
                              | None \<Rightarrow> span_size dverts_in = vert_coords_len))
                  in if use then
                       (case build_pchan_from_defbase p groups of
                          Inl f \<Rightarrow> Inl f
                        | Inr table \<Rightarrow> Inr (def_nr1, len1, True, offset, table))
                     else Inr (def_nr1, len1, False, offset, [])
                else Inr (def_nr1, len1, False, - 1, []))
      else Inr (- 1, 0, False, - 1, []))"

text \<open>
  Lines 560-605: the shared data of the batch, and the tasks run over the vertices.
\<close>

definition run_batch ::
  "'dq env \<Rightarrow> 'dq ArmatureUserdata \<Rightarrow> nat \<Rightarrow> BMEditMesh option \<Rightarrow> buffers \<Rightarrow> fault + buffers" where
  "run_batch e data vert_coords_len em_target bufs =
     (case em_target of
        Some em \<Rightarrow>
          if use_dverts data then
            BLI_task_parallel_mempool (vpool em) (armature_vert_task_editmesh e data) bufs
          else
            BLI_task_parallel_mempool (vpool em) (armature_vert_task_editmesh_no_dvert e data) bufs
      | None \<Rightarrow>
          BLI_task_parallel_range 0 vert_coords_len (armature_vert_task e data) bufs)"

text \<open>
  \<^verbatim>\<open>armature_deform_coords_impl\<close>. The result is the list of diagnostics written to the
  log by the call, and either the fault that ended it or the buffers it leaves.
\<close>

definition armature_deform_coords_impl ::
  "'dq env \<Rightarrow> 'dq Object \<Rightarrow> 'dq Object \<Rightarrow> string list option \<Rightarrow> buffers \<Rightarrow> nat
     \<Rightarrow> eArmature_DeformFlag set \<Rightarrow> string \<Rightarrow> Span \<Rightarrow> Mesh option \<Rightarrow> BMEditMesh option
     \<Rightarrow> string list \<times> (fault + buffers)" where
  "armature_deform_coords_impl e ob_arm_in ob_target defbase bufs vert_coords_len deformflag
       defgrp_name dverts_in me_target_in em_target =
     (case ob_data ob_arm_in of
        ID_AR arm \<Rightarrow>
          (case (edbo arm, pose ob_arm_in) of
             (None, Some p) \<Rightarrow>
               let recalc = (POSE_RECALC \<in> pose_flag p);
                   log = (if recalc then [pose_recalc_message (id_name ob_arm_in)] else [])
               in if recalc \<and> assert_aborts e then (log, Inl Assert_Failed)
                  else
                    (case vgroup_setup p ob_target defbase vert_coords_len deformflag
                            defgrp_name dverts_in me_target_in em_target of
                       Inl f \<Rightarrow> (log, Inl f)
                     | Inr (def_nr1, len1, use, offset, table) \<Rightarrow>
                         let obinv = invert_m4_m4 e (object_to_world ob_target);
                             post = mul_m4_m4m4 obinv (object_to_world ob_arm_in);
                             data =
                               \<lparr>ob_arm = ob_arm_in, me_target = me_target_in,
                                use_envelope = (ARM_DEF_ENVELOPE \<in> deformflag),
                                use_quaternion = (ARM_DEF_QUATERNION \<in> deformflag),
                                invert_vgroup = (ARM_DEF_INVERT_VGROUP \<in> deformflag),
                                use_dverts = use, armature_def_nr = def_nr1,
                                dverts = span_data dverts_in, dverts_len = span_size dverts_in,
                                pchan_from_defbase = table, defbase_len = len1,
                                premat = invert_m4_m4 e post, postmat = post,
                                cd_dvert_offset = offset\<rparr>
                         in (log, run_batch e data vert_coords_len em_target bufs))
           | _ \<Rightarrow> ([], Inr bufs))
      | _ \<Rightarrow> ([], Inl Bad_Cast))"

subsection \<open>The three entry points\<close>

definition BKE_armature_deform_coords_with_curves ::
  "'dq env \<Rightarrow> 'dq Object \<Rightarrow> 'dq Object \<Rightarrow> string list option \<Rightarrow> buffers \<Rightarrow> Span
     \<Rightarrow> eArmature_DeformFlag set \<Rightarrow> string \<Rightarrow> string list \<times> (fault + buffers)" where
  "BKE_armature_deform_coords_with_curves e ob_arm_in ob_target defbase bufs dverts_in
       deformflag defgrp_name =
     (if assert_aborts e \<and> span_size dverts_in \<noteq> length (vert_coords bufs)
      then ([], Inl Assert_Failed)
      else armature_deform_coords_impl e ob_arm_in ob_target defbase bufs
             (length (vert_coords bufs)) deformflag defgrp_name dverts_in None None)"

definition BKE_armature_deform_coords_with_mesh ::
  "'dq env \<Rightarrow> 'dq Object \<Rightarrow> 'dq Object \<Rightarrow> buffers \<Rightarrow> nat \<Rightarrow> eArmature_DeformFlag set
     \<Rightarrow> string \<Rightarrow> Mesh option \<Rightarrow> string list \<times> (fault + buffers)" where
  "BKE_armature_deform_coords_with_mesh e ob_arm_in ob_target bufs vert_coords_len deformflag
       defgrp_name me_target_in =
     (let id_target = ob_data ob_target;
          defbase =
            (case me_target_in of
               Some me \<Rightarrow> BKE_id_defgroup_list_get (ID_ME me)
             | None \<Rightarrow>
                 if BKE_id_supports_vertex_groups id_target
                 then BKE_id_defgroup_list_get id_target
                 else None);
          found =
            (if ob_type ob_target = OB_MESH then
               (case me_target_in of
                  Some me \<Rightarrow> Inr (deform_verts me, Some me)
                | None \<Rightarrow>
                    (case id_target of
                       ID_ME me \<Rightarrow> Inr (deform_verts me, Some me)
                     | _ \<Rightarrow> Inl Bad_Cast))
             else if ob_type ob_target = OB_LATTICE then
               (case id_target of
                  ID_LT lt \<Rightarrow>
                    Inr (\<lparr>span_data = lt_dvert lt,
                          span_size = pntsu lt * pntsv lt * pntsw lt\<rparr>, me_target_in)
                | _ \<Rightarrow> Inl Bad_Cast)
             else Inr (empty_span, me_target_in))
      in case found of
           Inl f \<Rightarrow> ([], Inl f)
         | Inr (dverts1, me_target1) \<Rightarrow>
             armature_deform_coords_impl e ob_arm_in ob_target defbase bufs vert_coords_len
               deformflag defgrp_name dverts1 me_target1 None)"

definition BKE_armature_deform_coords_with_editmesh ::
  "'dq env \<Rightarrow> 'dq Object \<Rightarrow> 'dq Object \<Rightarrow> buffers \<Rightarrow> nat \<Rightarrow> eArmature_DeformFlag set
     \<Rightarrow> string \<Rightarrow> BMEditMesh option \<Rightarrow> string list \<times> (fault + buffers)" where
  "BKE_armature_deform_coords_with_editmesh e ob_arm_in ob_target bufs vert_coords_len
       deformflag defgrp_name em_target =
     armature_deform_coords_impl e ob_arm_in ob_target
       (BKE_id_defgroup_list_get (ob_data ob_target)) bufs vert_coords_len deformflag
       defgrp_name empty_span None em_target"

subsection \<open>Predicates and an instance used in the statements\<close>

text \<open>
  An entry of a vertex's weights resolves when neither \<^verbatim>\<open>continue\<close> of the loop at
  lines 345-351 is taken for it: its index is below \<open>defbase_len\<close> and the table holds a
  pose channel there.
\<close>

definition resolves :: "'dq ArmatureUserdata \<Rightarrow> MDeformWeight \<Rightarrow> bool" where
  "resolves data d =
     (def_nr d < defbase_len data
      \<and> (case nth_opt (pchan_from_defbase data) (def_nr d) of
           Some (Some pchan) \<Rightarrow> True
         | _ \<Rightarrow> False))"

text \<open>
  An instance of the parameters, to run the model on concrete inputs. Its transforms
  are translations: a dual quaternion is represented by its translation vector, weighted
  translations add up, and the inverse of a translation matrix negates its last column.
  The segment lookup answers the first segment, with blend factor 0 below the middle of
  the bone and 1 from there on.
\<close>

definition translate_m4 :: "float3 \<Rightarrow> float4x4" where
  "translate_m4 t = (case t of (x, y, z) \<Rightarrow> ((1, 0, 0, 0), (0, 1, 0, 0), (0, 0, 1, 0), (x, y, z, 1)))"

definition ex_env :: "float3 env" where
  "ex_env =
     \<lparr>assert_aborts = False,
      dq_zero = zero_v3,
      add_weighted_dq_dq_pivot = (\<lambda>dq_sum dq pivot w scale. madd_v3_v3fl dq_sum dq w),
      normalize_dq = (\<lambda>dq total. mul_v3_fl dq (1 / total)),
      mul_v3m3_dq = (\<lambda>r want_R dq. (add_v3_v3v3 r dq, copy_m3_m4 unit_m4)),
      BKE_pchan_bbone_deform_segment_index =
        (\<lambda>pchan co. case co of (x, y, z) \<Rightarrow> (0, if z < 1 then 0 else 1)),
      invert_m4_m4 =
        (\<lambda>m. case m of (c0, c1, c2, (x, y, z, w)) \<Rightarrow> (c0, c1, c2, (- x, - y, - z, w)))\<rparr>"

text \<open>
  The bone of the spec's concrete scenarios: head (0,0,0), tail (0,0,2), radii (1,1),
  falloff 0, weight 1, no B-Bone segments. Its pose moves it by one unit along its axis.
\<close>

definition ex_bone :: Bone where
  "ex_bone =
     \<lparr>arm_head = (0, 0, 0), arm_tail = (0, 0, 2), rad_head = 1, rad_tail = 1,
      bone_dist = 0, bone_weight = 1, segments = 1, bone_flag = {}\<rparr>"

definition ex_pchan :: "float3 bPoseChannel" where
  "ex_pchan =
     \<lparr>pchan_name = ''Bone'', pchan_bone = Some ex_bone, chan_mat = translate_m4 (0, 0, 1),
      deform_dual_quat = (0, 0, 1), bbone_segments = 0, bbone_dual_quats = [],
      bbone_deform_mats = []\<rparr>"

definition ex_bbone :: "float3 bPoseChannel" where
  "ex_bbone =
     \<lparr>pchan_name = ''Spine'', pchan_bone = Some (ex_bone\<lparr>segments := 2\<rparr>),
      chan_mat = translate_m4 (0, 0, 1), deform_dual_quat = (0, 0, 1), bbone_segments = 2,
      bbone_dual_quats = [(0, 0, 0), (0, 0, 1), (0, 0, 2)],
      bbone_deform_mats =
        [translate_m4 (0, 0, 0), translate_m4 (0, 0, 0), translate_m4 (0, 0, 1),
         translate_m4 (0, 0, 2)]\<rparr>"

definition ex_arm :: "float3 Object" where
  "ex_arm =
     \<lparr>id_name = ''OBArmature'', ob_data = ID_AR \<lparr>edbo = None\<rparr>,
      pose = Some \<lparr>pose_flag = {}, chanbase = [ex_pchan]\<rparr>, object_to_world = unit_m4\<rparr>"

definition ex_target :: "float3 Object" where
  "ex_target =
     \<lparr>id_name = ''OBCurve'', ob_data = ID_OTHER None, pose = None,
      object_to_world = unit_m4\<rparr>"

definition ex_data :: "float3 ArmatureUserdata" where
  "ex_data =
     \<lparr>ob_arm = ex_arm, me_target = None, use_envelope = True, use_quaternion = False,
      invert_vgroup = False, use_dverts = True, armature_def_nr = - 1, dverts = None,
      dverts_len = 0, pchan_from_defbase = [Some ex_pchan], defbase_len = 1,
      premat = unit_m4, postmat = unit_m4, cd_dvert_offset = - 1\<rparr>"

text \<open>
  The same armature with a pose that carries the pose-recalc flag, and an editable mesh
  of two vertices without a deform-vertex layer.
\<close>

definition ex_stale_arm :: "float3 Object" where
  "ex_stale_arm = ex_arm\<lparr>pose := Some \<lparr>pose_flag = {POSE_RECALC}, chanbase = [ex_pchan]\<rparr>\<rparr>"

definition ex_em :: BMEditMesh where
  "ex_em = \<lparr>bm_cd_dvert_offset = - 1, vpool = [\<lparr>bm_dvert = None\<rparr>, \<lparr>bm_dvert = None\<rparr>]\<rparr>"

section \<open>Properties of the envelope falloff\<close>

subsection \<open>Rounding to single precision\<close>

lemma pow2_powr: "pow2 e = 2 powr (of_int e)"
proof (cases "0 \<le> e")
  case True
  then show ?thesis
    by (simp add: pow2_def powr_realpow [symmetric])
next
  case False
  have "(2::real) powr (of_int e) = 1 / 2 powr (- of_int e)"
    by (simp add: powr_minus_divide)
  also have "- real_of_int e = real (nat (- e))" using False by simp
  also have "(2::real) powr real (nat (- e)) = 2 ^ nat (- e)"
    by (simp add: powr_realpow)
  finally show ?thesis using False by (simp add: pow2_def)
qed

lemma pow2_pos: "0 < pow2 e"
  by (simp add: pow2_powr)

lemma pow2_mono: "a \<le> b \<Longrightarrow> pow2 a \<le> pow2 b"
  by (simp add: pow2_powr)

lemma pow2_add: "pow2 (a + b) = pow2 a * pow2 b"
  by (simp add: pow2_powr powr_add)

lemma pow2_24: "pow2 (e + 1) = 16777216 * pow2 (e - 23)"
proof -
  have "pow2 (e + 1) = pow2 (24 + (e - 23))" by (rule arg_cong [where f = pow2]) simp
  also have "\<dots> = pow2 24 * pow2 (e - 23)" by (rule pow2_add)
  finally show ?thesis by (simp add: pow2_def)
qed

lemma pow2_23: "pow2 e = 8388608 * pow2 (e - 23)"
proof -
  have "pow2 e = pow2 (23 + (e - 23))" by (rule arg_cong [where f = pow2]) simp
  also have "\<dots> = pow2 23 * pow2 (e - 23)" by (rule pow2_add)
  finally show ?thesis by (simp add: pow2_def)
qed

lemma exponent_normal:
  assumes "pow2 (- 126) \<le> \<bar>x\<bar>"
  shows "- 126 \<le> f32_exponent x" and "pow2 (f32_exponent x) \<le> \<bar>x\<bar>"
    and "\<bar>x\<bar> < pow2 (f32_exponent x + 1)"
proof -
  have pos: "0 < \<bar>x\<bar>" using assms pow2_pos [of "- 126"] by linarith
  have e: "f32_exponent x = \<lfloor>log 2 \<bar>x\<bar>\<rfloor>" using assms by (simp add: f32_exponent_def)
  have "2 powr (of_int (- 126)) \<le> \<bar>x\<bar>" using assms by (simp add: pow2_powr)
  then have "of_int (- 126) \<le> log 2 \<bar>x\<bar>" using pos by (simp add: le_log_iff)
  then show "- 126 \<le> f32_exponent x" unfolding e by (simp add: le_floor_iff)
  have "of_int \<lfloor>log 2 \<bar>x\<bar>\<rfloor> \<le> log 2 \<bar>x\<bar>" by simp
  then have "2 powr (of_int \<lfloor>log 2 \<bar>x\<bar>\<rfloor>) \<le> \<bar>x\<bar>"
    using pos by (subst (asm) le_log_iff) simp_all
  then show "pow2 (f32_exponent x) \<le> \<bar>x\<bar>"
    unfolding e pow2_powr .
  have "log 2 \<bar>x\<bar> < of_int (\<lfloor>log 2 \<bar>x\<bar>\<rfloor> + 1)" by linarith
  then have "\<bar>x\<bar> < 2 powr (of_int (\<lfloor>log 2 \<bar>x\<bar>\<rfloor> + 1))"
    using pos by (subst (asm) log_less_iff) simp_all
  then show "\<bar>x\<bar> < pow2 (f32_exponent x + 1)"
    unfolding e pow2_powr .
qed

lemma exponent_upper: "\<bar>x\<bar> < pow2 (f32_exponent x + 1)"
proof (cases "\<bar>x\<bar> < pow2 (- 126)")
  case True
  then have "f32_exponent x = - 126" by (simp add: f32_exponent_def)
  moreover have "pow2 (- 126) \<le> pow2 (- 125)" by (rule pow2_mono) simp
  ultimately show ?thesis using True by simp
next
  case False
  then show ?thesis using exponent_normal(3) [of x] by simp
qed

lemma exponent_ge: "- 126 \<le> f32_exponent x"
  using exponent_normal(1) [of x] by (cases "\<bar>x\<bar> < pow2 (- 126)") (simp_all add: f32_exponent_def)

lemma exponent_lower: "- 126 < f32_exponent x \<Longrightarrow> pow2 (f32_exponent x) \<le> \<bar>x\<bar>"
  using exponent_normal(2) [of x] by (cases "\<bar>x\<bar> < pow2 (- 126)") (simp_all add: f32_exponent_def)

lemma exponent_mono:
  assumes "\<bar>a\<bar> \<le> \<bar>b\<bar>"
  shows "f32_exponent a \<le> f32_exponent b"
proof (cases "\<bar>a\<bar> < pow2 (- 126)")
  case True
  then show ?thesis using exponent_ge [of b] by (simp add: f32_exponent_def)
next
  case False
  then have pa: "0 < \<bar>a\<bar>" using pow2_pos [of "- 126"] by linarith
  from False assms have "\<not> \<bar>b\<bar> < pow2 (- 126)" by linarith
  moreover have "log 2 \<bar>a\<bar> \<le> log 2 \<bar>b\<bar>" using pa assms by simp
  ultimately show ?thesis using False by (simp add: f32_exponent_def floor_mono)
qed

lemma exponent_eq:
  assumes "pow2 e \<le> \<bar>x\<bar>" and "\<bar>x\<bar> < pow2 (e + 1)" and "- 126 \<le> e"
  shows "f32_exponent x = e"
proof -
  have n: "pow2 (- 126) \<le> \<bar>x\<bar>" using assms(1) pow2_mono [OF assms(3)] by linarith
  then have pos: "0 < \<bar>x\<bar>" using pow2_pos [of "- 126"] by linarith
  have "of_int e \<le> log 2 \<bar>x\<bar>" using assms(1) pos by (simp add: pow2_powr le_log_iff)
  moreover have "log 2 \<bar>x\<bar> < of_int e + 1" using assms(2) pos by (simp add: pow2_powr log_less_iff)
  ultimately have "\<lfloor>log 2 \<bar>x\<bar>\<rfloor> = e" by (simp add: floor_unique)
  with n show ?thesis by (simp add: f32_exponent_def)
qed

lemma round_even_bounds: "\<lfloor>q\<rfloor> \<le> round_even q" "round_even q \<le> \<lfloor>q\<rfloor> + 1"
  by (simp_all add: round_even_def Let_def)

lemma round_even_int: "round_even (of_int k) = k"
  by (simp add: round_even_def)

lemma round_even_le_int: "q \<le> of_int k \<Longrightarrow> round_even q \<le> k"
proof (cases "q = of_int k")
  case True
  then show ?thesis by (simp add: round_even_int)
next
  case False
  assume "q \<le> of_int k"
  with False have "q < of_int k" by simp
  then have "\<lfloor>q\<rfloor> < k" by (simp add: floor_less_iff)
  with round_even_bounds(2) [of q] show ?thesis by linarith
qed

lemma round_even_ge_int: "of_int k \<le> q \<Longrightarrow> k \<le> round_even q"
proof -
  assume "of_int k \<le> q"
  then have "k \<le> \<lfloor>q\<rfloor>" by (simp add: le_floor_iff)
  with round_even_bounds(1) [of q] show ?thesis by linarith
qed

lemma round_even_mono:
  assumes "q1 \<le> q2"
  shows "round_even q1 \<le> round_even q2"
proof (cases "\<lfloor>q1\<rfloor> = \<lfloor>q2\<rfloor>")
  case True
  with assms show ?thesis by (auto simp: round_even_def Let_def)
next
  case False
  with assms have "\<lfloor>q1\<rfloor> < \<lfloor>q2\<rfloor>" using floor_mono [OF assms] by linarith
  with round_even_bounds(2) [of q1] round_even_bounds(1) [of q2] show ?thesis by linarith
qed

lemma round_even_near:
  assumes "\<bar>q - of_int n\<bar> < 1 / 2"
  shows "round_even q = n"
proof (cases "of_int n \<le> q")
  case True
  with assms have "\<lfloor>q\<rfloor> = n" by (intro floor_unique) (auto simp: abs_if split: if_splits)
  with assms True show ?thesis by (simp add: round_even_def Let_def)
next
  case False
  with assms have f: "\<lfloor>q\<rfloor> = n - 1" by (intro floor_unique) (auto simp: abs_if split: if_splits)
  with assms False show ?thesis by (auto simp: round_even_def Let_def abs_if split: if_splits)
qed


lemma ulp_pos: "0 < f32_ulp x"
  by (simp add: f32_ulp_def pow2_pos)

lemma round_val_nonneg: "0 \<le> x \<Longrightarrow> 0 \<le> round_val x"
proof -
  assume "0 \<le> x"
  then have "of_int 0 \<le> x / f32_ulp x" using ulp_pos [of x] by simp
  from round_even_ge_int [OF this] show ?thesis
    using ulp_pos [of x] by (simp add: round_val_def)
qed

lemma round_val_nonpos: "x \<le> 0 \<Longrightarrow> round_val x \<le> 0"
proof -
  assume "x \<le> 0"
  then have "x / f32_ulp x \<le> of_int 0" using ulp_pos [of x] by (simp add: divide_le_0_iff)
  from round_even_le_int [OF this] show ?thesis
    using ulp_pos [of x] by (simp add: round_val_def mult_le_0_iff)
qed

lemma round_val_upper: "0 \<le> x \<Longrightarrow> round_val x \<le> pow2 (f32_exponent x + 1)"
proof -
  assume "0 \<le> x"
  let ?u = "f32_ulp x"
  have "x < pow2 (f32_exponent x + 1)" using exponent_upper [of x] by linarith
  then have "x < 16777216 * ?u" by (simp add: pow2_24 f32_ulp_def)
  then have "x / ?u \<le> of_int 16777216" using ulp_pos [of x] by (simp add: divide_le_eq)
  from round_even_le_int [OF this] have "round_even (x / ?u) \<le> 16777216" .
  then have "of_int (round_even (x / ?u)) * ?u \<le> 16777216 * ?u"
    using ulp_pos [of x] by (intro mult_right_mono) simp_all
  then show ?thesis by (simp add: round_val_def pow2_24 f32_ulp_def)
qed

lemma round_val_lower:
  assumes "0 \<le> x" and "- 126 < f32_exponent x"
  shows "pow2 (f32_exponent x) \<le> round_val x"
proof -
  let ?u = "f32_ulp x"
  have "pow2 (f32_exponent x) \<le> x" using exponent_lower [OF assms(2)] assms(1) by simp
  then have "8388608 * ?u \<le> x" by (simp add: pow2_23 [of "f32_exponent x"] f32_ulp_def)
  then have "of_int 8388608 \<le> x / ?u" using ulp_pos [of x] by (simp add: le_divide_eq)
  from round_even_ge_int [OF this] have "8388608 \<le> round_even (x / ?u)" .
  then have "8388608 * ?u \<le> of_int (round_even (x / ?u)) * ?u"
    using ulp_pos [of x] by (intro mult_right_mono) simp_all
  then show ?thesis by (simp add: round_val_def pow2_23 [of "f32_exponent x"] f32_ulp_def)
qed

lemma round_val_neg_upper:
  assumes "x \<le> 0" and "- 126 < f32_exponent x"
  shows "round_val x \<le> - pow2 (f32_exponent x)"
proof -
  let ?u = "f32_ulp x"
  have "pow2 (f32_exponent x) \<le> - x" using exponent_lower [OF assms(2)] assms(1) by simp
  then have "x \<le> - 8388608 * ?u" by (simp add: pow2_23 [of "f32_exponent x"] f32_ulp_def)
  then have "x / ?u \<le> of_int (- 8388608)" using ulp_pos [of x] by (simp add: divide_le_eq)
  from round_even_le_int [OF this] have "round_even (x / ?u) \<le> - 8388608" .
  then have "of_int (round_even (x / ?u)) * ?u \<le> - 8388608 * ?u"
    using ulp_pos [of x] by (intro mult_right_mono) simp_all
  then show ?thesis by (simp add: round_val_def pow2_23 [of "f32_exponent x"] f32_ulp_def)
qed

lemma round_val_neg_lower: "x \<le> 0 \<Longrightarrow> - pow2 (f32_exponent x + 1) \<le> round_val x"
proof -
  assume "x \<le> 0"
  let ?u = "f32_ulp x"
  have "- x < pow2 (f32_exponent x + 1)" using exponent_upper [of x] by linarith
  then have "- 16777216 * ?u < x" by (simp add: pow2_24 f32_ulp_def)
  then have "of_int (- 16777216) \<le> x / ?u" using ulp_pos [of x] by (simp add: le_divide_eq)
  from round_even_ge_int [OF this] have "- 16777216 \<le> round_even (x / ?u)" .
  then have "- 16777216 * ?u \<le> of_int (round_even (x / ?u)) * ?u"
    using ulp_pos [of x] by (intro mult_right_mono) simp_all
  then show ?thesis by (simp add: round_val_def pow2_24 f32_ulp_def)
qed

lemma round_val_mono:
  assumes "a \<le> b"
  shows "round_val a \<le> round_val b"
proof -
  consider "a \<le> 0" "0 \<le> b" | "0 < a" | "b < 0" using assms by linarith
  then show ?thesis
  proof cases
    case 1
    with round_val_nonpos [of a] round_val_nonneg [of b] show ?thesis by linarith
  next
    case 2
    then have le: "f32_exponent a \<le> f32_exponent b" using assms by (intro exponent_mono) simp
    show ?thesis
    proof (cases "f32_exponent a = f32_exponent b")
      case True
      then have u: "f32_ulp a = f32_ulp b" by (simp add: f32_ulp_def)
      have "a / f32_ulp b \<le> b / f32_ulp b"
        using assms ulp_pos [of b] by (simp add: divide_right_mono)
      from round_even_mono [OF this] show ?thesis
        using ulp_pos [of b] by (simp add: round_val_def u mult_right_mono)
    next
      case False
      with le have lt: "f32_exponent a + 1 \<le> f32_exponent b" by simp
      then have "- 126 < f32_exponent b" using exponent_ge [of a] by linarith
      from round_val_lower [OF _ this] 2 assms have "pow2 (f32_exponent b) \<le> round_val b" by simp
      moreover have "round_val a \<le> pow2 (f32_exponent a + 1)" using 2 by (intro round_val_upper) simp
      moreover note pow2_mono [OF lt]
      ultimately show ?thesis by linarith
    qed
  next
    case 3
    then have le: "f32_exponent b \<le> f32_exponent a" using assms by (intro exponent_mono) simp
    show ?thesis
    proof (cases "f32_exponent a = f32_exponent b")
      case True
      then have u: "f32_ulp a = f32_ulp b" by (simp add: f32_ulp_def)
      have "a / f32_ulp b \<le> b / f32_ulp b"
        using assms ulp_pos [of b] by (simp add: divide_right_mono)
      from round_even_mono [OF this] show ?thesis
        using ulp_pos [of b] by (simp add: round_val_def u mult_right_mono)
    next
      case False
      with le have lt: "f32_exponent b + 1 \<le> f32_exponent a" by simp
      then have "- 126 < f32_exponent a" using exponent_ge [of b] by linarith
      from round_val_neg_upper [OF _ this] 3 assms have "round_val a \<le> - pow2 (f32_exponent a)" by simp
      moreover have "- pow2 (f32_exponent b + 1) \<le> round_val b" using 3 by (intro round_val_neg_lower) simp
      moreover note pow2_mono [OF lt]
      ultimately show ?thesis by linarith
    qed
  qed
qed

lemma round_val_normal:
  assumes "pow2 e \<le> \<bar>x\<bar>" and "\<bar>x\<bar> < pow2 (e + 1)" and "- 126 \<le> e"
    and "\<bar>x / pow2 (e - 23) - of_int n\<bar> < 1 / 2"
  shows "round_val x = of_int n * pow2 (e - 23)"
  using round_even_near [OF assms(4)]
  by (simp add: round_val_def f32_ulp_def exponent_eq [OF assms(1-3)])

lemma round_val_subnormal:
  assumes "\<bar>x\<bar> < pow2 (- 126)"
  shows "round_val x = of_int (round_even (x / pow2 (- 149))) * pow2 (- 149)"
  using assms by (simp add: round_val_def f32_ulp_def f32_exponent_def)

lemma round_val_0: "round_val 0 = 0"
  by (simp add: round_val_def round_even_def)

lemma round_val_1: "round_val 1 = 1"
  using round_val_normal [of 0 1 8388608] by (simp add: pow2_def)

lemma round32_0: "round32 0 = Finite 0"
  by (simp add: round32_def round_val_0 pow2_def)

lemma round32_1: "round32 1 = Finite 1"
  by (simp add: round32_def round_val_1 pow2_def)

lemma round32_cases:
  "round32 x = Finite (round_val x) \<and> round_val x < pow2 128 \<and> - pow2 128 < round_val x
   \<or> round32 x = PInf \<and> pow2 128 \<le> round_val x
   \<or> round32 x = NInf \<and> round_val x \<le> - pow2 128"
  using pow2_pos [of 128] by (auto simp: round32_def Let_def)


lemma is_f32_val: "is_f32 x \<Longrightarrow> round_val x = x \<and> x < pow2 128"
  using round32_cases [of x] by (auto simp: is_f32_def)

lemma round32_normal:
  assumes "pow2 e \<le> \<bar>x\<bar>" and "\<bar>x\<bar> < pow2 (e + 1)" and "- 126 \<le> e"
    and "\<bar>x / pow2 (e - 23) - of_int n\<bar> < 1 / 2"
    and "\<bar>of_int n * pow2 (e - 23)\<bar> < pow2 128"
  shows "round32 x = Finite (of_int n * pow2 (e - 23))"
  using assms(5) by (simp add: round32_def round_val_normal [OF assms(1-4)] abs_if split: if_splits)

lemma round32_subnormal:
  assumes "\<bar>x\<bar> < pow2 (- 126)"
  shows "round32 x = Finite (of_int (round_even (x / pow2 (- 149))) * pow2 (- 149))"
proof -
  have "\<bar>round_val x\<bar> \<le> pow2 (- 125)"
    using round_val_upper [of x] round_val_neg_lower [of x] round_val_nonneg [of x]
      round_val_nonpos [of x] assms
    by (cases "0 \<le> x") (simp_all add: f32_exponent_def abs_if)
  moreover have "pow2 (- 125) < pow2 128" by (simp add: pow2_def)
  ultimately show ?thesis
    by (simp add: round32_def round_val_subnormal [OF assms, symmetric] abs_if split: if_splits)
qed

subsection \<open>Evaluating the rounding\<close>

lemma round32_normalI:
  assumes "- 126 \<le> e" and "pow2 e \<le> \<bar>x\<bar>" and "\<bar>x\<bar> < pow2 (e + 1)"
    and "\<bar>x / pow2 (e - 23) - of_int n\<bar> < 1 / 2"
    and "v = of_int n * pow2 (e - 23)" and "\<bar>v\<bar> < pow2 128"
  shows "round32 x = Finite v"
  using round32_normal [of e x n] assms by simp


lemmas falloff_eval = bone_envelope_falloff_def f32_arith_def square_def f32_sub_def Let_def

lemma round32_2: "round32 2 = Finite 2"
  by (rule round32_normalI [of 1 _ 8388608]) (simp_all add: pow2_def)

lemma round32_3: "round32 3 = Finite 3"
  by (rule round32_normalI [of 1 _ 12582912]) (simp_all add: pow2_def)

lemma round32_4: "round32 4 = Finite 4"
  by (rule round32_normalI [of 2 _ 8388608]) (simp_all add: pow2_def)

lemma round32_9: "round32 9 = Finite 9"
  by (rule round32_normalI [of 3 _ 9437184]) (simp_all add: pow2_def)

lemma round32_16: "round32 16 = Finite 16"
  by (rule round32_normalI [of 4 _ 8388608]) (simp_all add: pow2_def)

lemma round32_quarter: "round32 (1 / 4) = Finite (1 / 4)"
  by (rule round32_normalI [of "- 2" _ 8388608]) (simp_all add: pow2_def)

lemma round32_three_quarters: "round32 (3 / 4) = Finite (3 / 4)"
  by (rule round32_normalI [of "- 1" _ 12582912]) (simp_all add: pow2_def)

subsection \<open>The three cases\<close>

text \<open>
  The test of the first case passes only inside the core, and it passes everywhere
  inside the core when the square of the radius is a \<^verbatim>\<open>float\<close>.
\<close>

lemma core_test_sound:
  assumes "is_f32 x" and "f32_lt (Finite x) (f32_mul (Finite y) (Finite y))"
  shows "x < y\<^sup>2"
proof (rule ccontr)
  assume "\<not> x < y\<^sup>2"
  then have "y * y \<le> x" by (simp add: power2_eq_square)
  from round_val_mono [OF this] is_f32_val [OF assms(1)]
  have "round_val (y * y) \<le> x" "x < pow2 128" by simp_all
  with round32_cases [of "y * y"] assms(2) show False by auto
qed

lemma core_test_complete:
  assumes "is_f32 (y * y)" and "x < y\<^sup>2"
  shows "f32_lt (Finite x) (f32_mul (Finite y) (Finite y))"
  using assms by (simp add: is_f32_def power2_eq_square)

lemma underflow_rr: "round32 (1 / 2 ^ 80 * (1 / 2 ^ 80)) = Finite 0"
  by (subst round32_subnormal) (simp_all add: pow2_def round_even_def)

lemma round32_ninth: "round32 (1 / 9) = Finite (14913081 / 134217728)"
  by (rule round32_normalI [of "- 4" _ 14913081]) (simp_all add: pow2_def)

lemma round32_eight_ninths: "round32 (119304647 / 134217728) = Finite (14913081 / 16777216)"
  by (rule round32_normalI [of "- 1" _ 14913081]) (simp_all add: pow2_def)

text \<open>
  Claim C1, as it is stated, fails on the code, where the products, the sum, the square
  root and the quotient are rounded. For the \<^verbatim>\<open>float\<close> radius \<^verbatim>\<open>2^-80\<close> the product
  \<^verbatim>\<open>closest_radius * closest_radius\<close> underflows to 0, so at squared distance 0, which
  is below the square of the radius, the first test fails and, the falloff distance being
  0, the function returns 0 and not 1. At squared distance 4, radius 1 and falloff
  distance 3 no test passes and the function returns the \<^verbatim>\<open>float\<close>
  \<^verbatim>\<open>14913081 / 2^24\<close>, which is not \<open>1 - ((sqrt 4 - 1) / 3)\<^sup>2 = 8 / 9\<close>.
\<close>

theorem C1_rounded_product_counterexample:
  "is_f32 (1 / 2 ^ 80) \<and> (0::real) < (1 / 2 ^ 80)\<^sup>2
   \<and> bone_envelope_falloff f32_arith (Finite 0) (Finite (1 / 2 ^ 80)) (Finite 0) = Finite 0
   \<and> \<not> (4::real) < 1\<^sup>2 \<and> (3::real) \<noteq> 0 \<and> \<not> (1 + 3)\<^sup>2 \<le> (4::real)
   \<and> bone_envelope_falloff f32_arith (Finite 4) (Finite 1) (Finite 3)
        = Finite (14913081 / 16777216)
   \<and> (14913081 / 16777216 :: real) \<noteq> 1 - ((sqrt 4 - 1) / 3)\<^sup>2"
proof -
  have "round32 (1 / 2 ^ 80) = Finite (1 / 2 ^ 80)"
    by (rule round32_normalI [of "- 80" _ 8388608]) (simp_all add: pow2_def)
  moreover have
    "bone_envelope_falloff f32_arith (Finite 0) (Finite (1 / 2 ^ 80)) (Finite 0) = Finite 0"
    using underflow_rr by (simp add: falloff_eval)
  moreover have "bone_envelope_falloff f32_arith (Finite 4) (Finite 1) (Finite 3)
      = Finite (14913081 / 16777216)"
    using round32_1 round32_2 round32_4 round32_9 round32_16 round32_ninth round32_eight_ninths
    by (simp add: falloff_eval)
  ultimately show ?thesis by (simp add: is_f32_def power2_eq_square)
qed

text \<open>
  Claim C1, amended. With every operation rounded to single precision, the envelope
  falloff returns 1 when \<^verbatim>\<open>d2 < radius * radius\<close>, the product being rounded; otherwise
  it returns 0 when the falloff distance is exactly zero or
  \<^verbatim>\<open>d2 >= (radius + falloff) * (radius + falloff)\<close>, the sum and then the product
  being rounded; and otherwise it returns \<^verbatim>\<open>1 - (d * d) / (falloff * falloff)\<close> for
  \<^verbatim>\<open>d = sqrtf(d2) - radius\<close>, each of the six operations being rounded. This covers
  every argument, the infinities and NaN included. A \<^verbatim>\<open>float\<close> squared distance that
  passes the first test is below the exact square of the radius.
\<close>

theorem C1_falloff_float_cases:
  "bone_envelope_falloff f32_arith d2 r f =
     (if f32_lt d2 (f32_mul r r) then Finite 1
      else if f32_eq f (Finite 0) \<or> f32_ge d2 (f32_mul (f32_add r f) (f32_add r f))
      then Finite 0
      else f32_sub (Finite 1)
             (f32_div (f32_mul (f32_sub (f32_sqrt d2) r) (f32_sub (f32_sqrt d2) r))
                (f32_mul f f)))
   \<and> (is_f32 x \<and> f32_lt (Finite x) (f32_mul (Finite y) (Finite y)) \<longrightarrow> x < y\<^sup>2)"
  using core_test_sound [of x y]
  by (simp add: bone_envelope_falloff_def f32_arith_def square_def Let_def)

theorem C1_falloff_float_cases_witness:
  "bone_envelope_falloff f32_arith (Finite 4) (Finite 1) (Finite 2) = Finite (3 / 4)
   \<and> is_f32 0 \<and> f32_lt (Finite 0) (f32_mul (Finite 1) (Finite 1)) \<and> (0::real) < 1\<^sup>2"
  using C1_falloff_float_cases [of "Finite 4" "Finite 1" "Finite 2" 0 1]
    round32_0 round32_1 round32_2 round32_3 round32_4 round32_9 round32_quarter
    round32_three_quarters
  by (simp add: is_f32_def f32_sub_def)

subsection \<open>A falloff distance of zero\<close>

lemma round32_next_one:
  "round32 (8388609 / 8388608 * (8388609 / 8388608)) = Finite (4194305 / 4194304)"
  by (rule round32_normalI [of 0 _ 8388610]) (simp_all add: pow2_def)

text \<open>
  Claim C5, as it is stated, fails on the code: the core is tested against the rounded
  product \<^verbatim>\<open>closest_radius * closest_radius\<close>. For the radius \<^verbatim>\<open>1 + 2^-23\<close> that
  product is rounded down to \<^verbatim>\<open>1 + 2^-22\<close>; the squared distance \<^verbatim>\<open>1 + 2^-22\<close> is
  strictly below the square of the radius, and with a falloff distance of zero the
  function returns 0 there.
\<close>

theorem C5_inside_core_counterexample:
  "is_f32 (4194305 / 4194304) \<and> is_f32 (8388609 / 8388608)
   \<and> (4194305 / 4194304 :: real) < (8388609 / 8388608)\<^sup>2
   \<and> bone_envelope_falloff f32_arith (Finite (4194305 / 4194304)) (Finite (8388609 / 8388608))
        (Finite 0) = Finite 0"
proof -
  have "round32 (4194305 / 4194304) = Finite (4194305 / 4194304)"
    by (rule round32_normalI [of 0 _ 8388610]) (simp_all add: pow2_def)
  moreover have "round32 (8388609 / 8388608) = Finite (8388609 / 8388608)"
    by (rule round32_normalI [of 0 _ 8388609]) (simp_all add: pow2_def)
  moreover have "bone_envelope_falloff f32_arith (Finite (4194305 / 4194304))
      (Finite (8388609 / 8388608)) (Finite 0) = Finite 0"
    using round32_next_one by (simp add: falloff_eval)
  ultimately show ?thesis by (simp add: is_f32_def power2_eq_square)
qed

text \<open>
  Claim C5, amended. When the falloff distance is exactly 0 the envelope falloff is a
  step function with no smooth region: for every argument, the infinities and NaN
  included, it returns 1 when \<^verbatim>\<open>d2 < radius * radius\<close>, the product being rounded to
  single precision, and 0 otherwise. It returns 0 for every \<^verbatim>\<open>float\<close> squared distance
  that is not below the exact square of the radius, and 1 for every squared distance
  below the square of the radius when that square is itself a \<^verbatim>\<open>float\<close>.
\<close>

theorem C5_zero_falloff_float_step:
  "bone_envelope_falloff f32_arith d2 r (Finite 0) =
     (if f32_lt d2 (f32_mul r r) then Finite 1 else Finite 0)
   \<and> (is_f32 x \<and> y\<^sup>2 \<le> x \<longrightarrow>
        bone_envelope_falloff f32_arith (Finite x) (Finite y) (Finite 0) = Finite 0)
   \<and> (is_f32 (y * y) \<and> z < y\<^sup>2 \<longrightarrow>
        bone_envelope_falloff f32_arith (Finite z) (Finite y) (Finite 0) = Finite 1)"
proof -
  have step: "bone_envelope_falloff f32_arith a b (Finite 0) =
      (if f32_lt a (f32_mul b b) then Finite 1 else Finite 0)" for a b
    by (simp add: bone_envelope_falloff_def f32_arith_def)
  have "\<not> f32_lt (Finite x) (f32_mul (Finite y) (Finite y))" if "is_f32 x" "y\<^sup>2 \<le> x"
    using core_test_sound [of x y] that by auto
  moreover have "f32_lt (Finite z) (f32_mul (Finite y) (Finite y))" if "is_f32 (y * y)" "z < y\<^sup>2"
    using that by (rule core_test_complete)
  ultimately show ?thesis by (simp only: step) simp
qed

theorem C5_zero_falloff_float_step_witness:
  "bone_envelope_falloff f32_arith (Finite 4) (Finite 1) (Finite 0) = Finite 0
   \<and> is_f32 4 \<and> 1\<^sup>2 \<le> (4::real)
   \<and> bone_envelope_falloff f32_arith (Finite 0) (Finite 1) (Finite 0) = Finite 1
   \<and> is_f32 (1 * 1) \<and> (0::real) < 1\<^sup>2"
  using C5_zero_falloff_float_step [of "Finite 4" "Finite 1" 4 1 0] round32_1 round32_4
  by (simp add: is_f32_def)

subsection \<open>The range of the falloff and its two boundaries\<close>































section \<open>Properties of the B-Bone blend\<close>

lemma accumulate_zero_weight:
  "pchan_deform_accumulate e deform_dq deform_mat co 0 acc full_deform = Inr acc"
  by (simp add: pchan_deform_accumulate_def)

text \<open>
  Claim C7. When the segment blend factor of a B-Bone is exactly 0 or exactly 1,
  \<open>b_bone_deform\<close> accumulates exactly what one call of the single-matrix accumulation
  does with the dual quaternion and the matrix of the one adjacent segment (the lower
  one for blend 0, the upper one for blend 1) at the bone's full weight: the other
  segment contributes nothing. Seen from \<open>pchan_bone_deform\<close>, the segmented bone then
  deforms as a non-segmented pose channel that carries that segment's transform.
\<close>

theorem C7_bbone_blend_endpoints:
  assumes seg: "BKE_pchan_bbone_deform_segment_index e pchan co = (index, blend)"
    and blend: "blend = 0 \<or> blend = 1"
  shows "b_bone_deform e pchan co weight acc full_deform =
           pchan_deform_accumulate e
             (nth_int (bbone_dual_quats pchan) (if blend = 0 then index else index + 1))
             (nth_int (bbone_deform_mats pchan) (if blend = 0 then index + 1 else index + 2))
             co weight acc full_deform
       \<and> (\<forall>bone dq mat.
            pchan_bone pchan = Some bone
            \<and> segments bone > 1 \<and> bbone_segments pchan = segments bone
            \<and> nth_int (bbone_dual_quats pchan) (if blend = 0 then index else index + 1) = Some dq
            \<and> nth_int (bbone_deform_mats pchan) (if blend = 0 then index + 1 else index + 2)
                = Some mat
            \<longrightarrow> pchan_bone_deform e pchan weight acc co full_deform contrib =
                pchan_bone_deform e
                  (pchan\<lparr>deform_dual_quat := dq, chan_mat := mat, bbone_segments := 0\<rparr>)
                  weight acc co full_deform contrib)"
proof -
  let ?one = "pchan_deform_accumulate e
             (nth_int (bbone_dual_quats pchan) (if blend = 0 then index else index + 1))
             (nth_int (bbone_deform_mats pchan) (if blend = 0 then index + 1 else index + 2))
             co weight acc full_deform"
  have main: "b_bone_deform e pchan co weight acc full_deform = ?one"
  proof (cases "blend = 0")
    case True
    then show ?thesis
      by (cases "pchan_deform_accumulate e (nth_int (bbone_dual_quats pchan) index)
                   (nth_int (bbone_deform_mats pchan) (index + 1)) co weight acc full_deform")
        (simp_all add: b_bone_deform_def seg accumulate_zero_weight Let_def)
  next
    case False
    with blend have "blend = 1" by simp
    then show ?thesis
      by (simp add: b_bone_deform_def seg accumulate_zero_weight Let_def)
  qed
  then show ?thesis
    by (auto simp: pchan_bone_deform_def)
qed

theorem C7_bbone_blend_endpoints_witness:
  "BKE_pchan_bbone_deform_segment_index ex_env ex_bbone (0, 0, 1) = (0, 1)
   \<and> b_bone_deform ex_env ex_bbone (0, 0, 1) (1 / 2) (init_accum ex_env False False) False
      = pchan_deform_accumulate ex_env (Some (0, 0, 1)) (Some (translate_m4 (0, 0, 1)))
          (0, 0, 1) (1 / 2) (init_accum ex_env False False) False
   \<and> pchan_bone (ex_bbone\<lparr>deform_dual_quat := (0, 0, 1), chan_mat := translate_m4 (0, 0, 1),
                           bbone_segments := 0\<rparr>) = Some (ex_bone\<lparr>segments := 2\<rparr>)
   \<and> pchan_bone_deform ex_env ex_bbone (1 / 2) (init_accum ex_env False False) (0, 0, 1) False 0
      = pchan_bone_deform ex_env
          (ex_bbone\<lparr>deform_dual_quat := (0, 0, 1), chan_mat := translate_m4 (0, 0, 1),
                     bbone_segments := 0\<rparr>)
          (1 / 2) (init_accum ex_env False False) (0, 0, 1) False 0
   \<and> b_bone_deform ex_env ex_bbone (0, 0, 1) (1 / 2) (init_accum ex_env False False) False
      = Inr \<lparr>co_accum = Some (0, 0, 1 / 2), dq_accum = None, mat_accum = None\<rparr>"
proof -
  let ?acc = "init_accum ex_env False False"
  have seg: "BKE_pchan_bbone_deform_segment_index ex_env ex_bbone (0, 0, 1) = (0, 1)"
    by (simp add: ex_env_def)
  have bl: "(1 :: real) = 0 \<or> (1 :: real) = 1" by simp
  have q: "nth_int (bbone_dual_quats ex_bbone) (if (1 :: real) = 0 then 0 else 0 + 1)
             = Some (0, 0, 1)"
    by (simp add: ex_bbone_def nth_int_def nth_opt_def)
  have m: "nth_int (bbone_deform_mats ex_bbone) (if (1 :: real) = 0 then 0 + 1 else 0 + 2)
             = Some (translate_m4 (0, 0, 1))"
    by (simp add: ex_bbone_def nth_int_def nth_opt_def)
  have b: "pchan_bone ex_bbone = Some (ex_bone\<lparr>segments := 2\<rparr>)"
    "segments (ex_bone\<lparr>segments := 2\<rparr>) > 1"
    "bbone_segments ex_bbone = segments (ex_bone\<lparr>segments := 2\<rparr>)"
    by (simp_all add: ex_bbone_def)
  note th = C7_bbone_blend_endpoints [OF seg bl, of "1 / 2" ?acc False 0]
  from th have one: "b_bone_deform ex_env ex_bbone (0, 0, 1) (1 / 2) ?acc False
      = pchan_deform_accumulate ex_env (Some (0, 0, 1)) (Some (translate_m4 (0, 0, 1)))
          (0, 0, 1) (1 / 2) ?acc False"
    by (simp only: q m)
  from th have "pchan_bone ex_bbone = Some (ex_bone\<lparr>segments := 2\<rparr>)
            \<and> segments (ex_bone\<lparr>segments := 2\<rparr>) > 1
            \<and> bbone_segments ex_bbone = segments (ex_bone\<lparr>segments := 2\<rparr>)
            \<and> nth_int (bbone_dual_quats ex_bbone) (if (1 :: real) = 0 then 0 else 0 + 1)
                = Some (0, 0, 1)
            \<and> nth_int (bbone_deform_mats ex_bbone) (if (1 :: real) = 0 then 0 + 1 else 0 + 2)
                = Some (translate_m4 (0, 0, 1))
            \<longrightarrow> pchan_bone_deform ex_env ex_bbone (1 / 2) ?acc (0, 0, 1) False 0 =
                pchan_bone_deform ex_env
                  (ex_bbone\<lparr>deform_dual_quat := (0, 0, 1), chan_mat := translate_m4 (0, 0, 1),
                             bbone_segments := 0\<rparr>)
                  (1 / 2) ?acc (0, 0, 1) False 0"
    by blast
  with b q m have two: "pchan_bone_deform ex_env ex_bbone (1 / 2) ?acc (0, 0, 1) False 0 =
                pchan_bone_deform ex_env
                  (ex_bbone\<lparr>deform_dual_quat := (0, 0, 1), chan_mat := translate_m4 (0, 0, 1),
                             bbone_segments := 0\<rparr>)
                  (1 / 2) ?acc (0, 0, 1) False 0"
    by blast
  have val: "pchan_deform_accumulate ex_env (Some (0, 0, 1)) (Some (translate_m4 (0, 0, 1)))
          (0, 0, 1) (1 / 2) ?acc False
        = Inr \<lparr>co_accum = Some (0, 0, 1 / 2), dq_accum = None, mat_accum = None\<rparr>"
    by (simp add: pchan_deform_accumulate_def init_accum_def translate_m4_def zero_v3_def
        sub_v3_v3_def madd_v3_v3fl_def Let_def)
  have b': "pchan_bone (ex_bbone\<lparr>deform_dual_quat := (0, 0, 1), chan_mat := translate_m4 (0, 0, 1),
                           bbone_segments := 0\<rparr>) = Some (ex_bone\<lparr>segments := 2\<rparr>)"
    by (simp add: ex_bbone_def)
  from seg one two val b' show ?thesis by (simp only: simp_thms)
qed

section \<open>Properties of the per-vertex driver\<close>

lemmas ex_defs =
  ex_env_def ex_bone_def ex_pchan_def ex_bbone_def ex_arm_def ex_target_def ex_data_def
  translate_m4_def unit_m4_def zero_v3_def zero_m3_def

lemma ex_distfactor_inside: "distfactor_to_bone (1 / 2, 0, 1) (0, 0, 0) (0, 0, 2) 1 1 0 = 1"
  by (simp add: distfactor_to_bone_def normalize_and_get_length_def length_squared_def
      distance_squared_def bone_envelope_falloff_def exact_arith_def interpolate_def square_def
      Let_def)

lemma ex_distfactor_outside: "distfactor_to_bone (3, 0, 1) (0, 0, 0) (0, 0, 2) 1 1 0 = 0"
  by (simp add: distfactor_to_bone_def normalize_and_get_length_def length_squared_def
      distance_squared_def bone_envelope_falloff_def exact_arith_def interpolate_def square_def
      Let_def)

lemma ex_envelope_inside:
  "envelope_deform ex_env ex_data (1 / 2, 0, 1) False (init_accum ex_env False False, 0)
     = Inr (\<lparr>co_accum = Some (0, 0, 1), dq_accum = None, mat_accum = None\<rparr>, 1)"
  by (simp add: envelope_deform_def ex_defs dist_bone_deform_def ex_distfactor_inside
      pchan_deform_accumulate_def init_accum_def sub_v3_v3_def madd_v3_v3fl_def Let_def)

lemma ex_envelope_outside:
  "envelope_deform ex_env ex_data (3, 0, 1) False (init_accum ex_env False False, 0)
     = Inr (init_accum ex_env False False, 0)"
  by (simp add: envelope_deform_def ex_defs dist_bone_deform_def ex_distfactor_outside
      init_accum_def Let_def)

subsection \<open>Skipped vertices\<close>

text \<open>
  Claim C4. A vertex whose effective working weight is zero (an armature weight of 0
  when there is no buffer of previous coordinates, a previous-coordinate weight of
  exactly 1 when there is one) is skipped: the task returns all buffers exactly as
  they were, whatever premat and postmat are, so neither transform nor any accumulation
  has touched the coordinate, and the deformation matrices are not written.
\<close>

theorem C4_zero_weight_vertex_skipped:
  assumes "(vert_coords_prev bufs = None \<and> fst (vertex_weights data dvert False) = 0)
         \<or> (vert_coords_prev bufs \<noteq> None \<and> snd (vertex_weights data dvert True) = 1)"
  shows "armature_vert_task_with_dvert e data i dvert bufs = Inr bufs"
  using assms
  by (auto simp: armature_vert_task_with_dvert_def split: prod.splits)

theorem C4_zero_weight_vertex_skipped_witness:
  "fst (vertex_weights (ex_data\<lparr>armature_def_nr := 0, premat := translate_m4 (5, 0, 0)\<rparr>)
          (Some \<lparr>dw = [\<lparr>def_nr = 0, dw_weight = 0\<rparr>]\<rparr>) False) = 0
   \<and> armature_vert_task_with_dvert ex_env
        (ex_data\<lparr>armature_def_nr := 0, premat := translate_m4 (5, 0, 0)\<rparr>) 0
        (Some \<lparr>dw = [\<lparr>def_nr = 0, dw_weight = 0\<rparr>]\<rparr>)
        \<lparr>vert_coords = [(1 / 2, 0, 1)], vert_deform_mats = Some [copy_m3_m4 unit_m4],
         vert_coords_prev = None\<rparr>
      = Inr \<lparr>vert_coords = [(1 / 2, 0, 1)], vert_deform_mats = Some [copy_m3_m4 unit_m4],
             vert_coords_prev = None\<rparr>
   \<and> snd (vertex_weights (ex_data\<lparr>armature_def_nr := 0, premat := translate_m4 (5, 0, 0)\<rparr>)
          (Some \<lparr>dw = [\<lparr>def_nr = 0, dw_weight = 0\<rparr>]\<rparr>) True) = 1
   \<and> armature_vert_task_with_dvert ex_env
        (ex_data\<lparr>armature_def_nr := 0, premat := translate_m4 (5, 0, 0)\<rparr>) 0
        (Some \<lparr>dw = [\<lparr>def_nr = 0, dw_weight = 0\<rparr>]\<rparr>)
        \<lparr>vert_coords = [(1 / 2, 0, 1)], vert_deform_mats = None,
         vert_coords_prev = Some [(7, 7, 7)]\<rparr>
      = Inr \<lparr>vert_coords = [(1 / 2, 0, 1)], vert_deform_mats = None,
             vert_coords_prev = Some [(7, 7, 7)]\<rparr>"
proof -
  let ?data = "ex_data\<lparr>armature_def_nr := 0, premat := translate_m4 (5, 0, 0)\<rparr>"
  let ?dv = "Some \<lparr>dw = [\<lparr>def_nr = 0, dw_weight = 0\<rparr>]\<rparr>"
  let ?b1 = "\<lparr>vert_coords = [(1 / 2, 0, 1) :: float3],
              vert_deform_mats = Some [copy_m3_m4 unit_m4], vert_coords_prev = None\<rparr>"
  let ?b2 = "\<lparr>vert_coords = [(1 / 2, 0, 1) :: float3], vert_deform_mats = None,
              vert_coords_prev = Some [(7, 7, 7)]\<rparr>"
  have w1: "fst (vertex_weights ?data ?dv False) = 0"
    by (simp add: vertex_weights_def BKE_defvert_find_weight_def ex_data_def)
  have w2: "snd (vertex_weights ?data ?dv True) = 1"
    by (simp add: vertex_weights_def BKE_defvert_find_weight_def ex_data_def)
  have h1: "(vert_coords_prev ?b1 = None \<and> fst (vertex_weights ?data ?dv False) = 0)
          \<or> (vert_coords_prev ?b1 \<noteq> None \<and> snd (vertex_weights ?data ?dv True) = 1)"
    using w1 by simp
  have h2: "(vert_coords_prev ?b2 = None \<and> fst (vertex_weights ?data ?dv False) = 0)
          \<or> (vert_coords_prev ?b2 \<noteq> None \<and> snd (vertex_weights ?data ?dv True) = 1)"
    using w2 by simp
  show ?thesis
    using w1 w2 C4_zero_weight_vertex_skipped [OF h1, of ex_env 0]
      C4_zero_weight_vertex_skipped [OF h2, of ex_env 0]
    by simp
qed

subsection \<open>The loop over the vertex-group weights\<close>

lemma dvert_loop_skip:
  "defbase_len data \<le> def_nr d \<Longrightarrow>
   dvert_loop e data co fd (d # ds) st = dvert_loop e data co fd ds st"
  by (cases st) simp

lemma dvert_loop_append:
  "dvert_loop e data co fd (xs @ ys) st =
     (case dvert_loop e data co fd xs st of
        Inl f \<Rightarrow> Inl f
      | Inr st1 \<Rightarrow> dvert_loop e data co fd ys st1)"
proof (induction xs arbitrary: st)
  case Nil
  then show ?case by simp
next
  case (Cons x xs)
  obtain deformed acc contrib where st: "st = (deformed, acc, contrib)" by (cases st)
  show ?case
    by (simp add: st Cons.IH Let_def split: option.split sum.split prod.split)
qed

lemma dvert_loop_drop:
  assumes "defbase_len data \<le> def_nr d"
  shows "dvert_loop e data co fd (pre @ d # post) st = dvert_loop e data co fd (pre @ post) st"
  by (simp add: dvert_loop_append dvert_loop_skip [OF assms] cong: sum.case_cong)

lemma dvert_loop_unresolved:
  assumes "\<not> resolves data d" and "dvert_loop e data co fd (d # ds) st = Inr r"
  shows "dvert_loop e data co fd ds st = Inr r"
proof -
  obtain deformed acc contrib where st: "st = (deformed, acc, contrib)" by (cases st)
  show ?thesis
  proof (cases "defbase_len data \<le> def_nr d")
    case True
    with assms(2) show ?thesis by (simp add: st)
  next
    case False
    with assms(1) have "nth_opt (pchan_from_defbase data) (def_nr d) = None
        \<or> nth_opt (pchan_from_defbase data) (def_nr d) = Some None"
      by (auto simp: resolves_def split: option.splits)
    with False assms(2) show ?thesis by (auto simp: st)
  qed
qed

lemma dvert_loop_resolved:
  assumes "resolves data d"
    and "dvert_loop e data co fd (d # ds) (deformed, acc, contrib) = Inr r"
  shows "\<exists>acc1 contrib1. dvert_loop e data co fd ds (1, acc1, contrib1) = Inr r"
proof -
  from assms(1) obtain pchan where
    "def_nr d < defbase_len data"
    "nth_opt (pchan_from_defbase data) (def_nr d) = Some (Some pchan)"
    by (auto simp: resolves_def split: option.splits)
  with assms(2) show ?thesis
    by (auto simp: Let_def split: sum.splits)
qed

lemma dvert_loop_flag_stays:
  "dvert_loop e data co fd ds (1, acc, contrib) = Inr (deformed1, acc1, contrib1)
   \<Longrightarrow> deformed1 = 1"
proof (induction ds arbitrary: acc contrib)
  case Nil
  then show ?case by simp
next
  case (Cons d ds)
  show ?case
  proof (cases "resolves data d")
    case True
    from dvert_loop_resolved [OF True Cons.prems] Cons.IH show ?thesis by blast
  next
    case False
    from dvert_loop_unresolved [OF False Cons.prems] Cons.IH show ?thesis by blast
  qed
qed

lemma dvert_loop_flag:
  "dvert_loop e data co fd ds (deformed, acc, contrib) = Inr (deformed1, acc1, contrib1) \<Longrightarrow>
   (if list_ex (resolves data) ds then deformed1 = 1
    else deformed1 = deformed \<and> acc1 = acc \<and> contrib1 = contrib)"
proof (induction ds)
  case Nil
  then show ?case by simp
next
  case (Cons d ds)
  show ?case
  proof (cases "resolves data d")
    case True
    from dvert_loop_resolved [OF True Cons.prems] dvert_loop_flag_stays True
    show ?thesis by fastforce
  next
    case False
    from dvert_loop_unresolved [OF False Cons.prems] Cons.IH False show ?thesis by simp
  qed
qed

lemma accumulate_bones_groups:
  assumes "use_dverts data" and "totweight dv \<noteq> 0"
  shows "accumulate_bones e data (Some dv) co fd acc0 =
     (case dvert_loop e data co fd (dw dv) (0, acc0, 0) of
        Inl f \<Rightarrow> Inl f
      | Inr (deformed, acc, contrib) \<Rightarrow>
          if use_envelope data \<and> \<not> list_ex (resolves data) (dw dv)
          then envelope_deform e data co fd (acc0, 0)
          else Inr (acc, contrib))"
proof (cases "dvert_loop e data co fd (dw dv) (0, acc0, 0)")
  case (Inl f)
  with assms show ?thesis by (simp add: accumulate_bones_def)
next
  case (Inr r)
  obtain deformed acc contrib where r: "r = (deformed, acc, contrib)" by (cases r)
  from dvert_loop_flag [OF Inr [unfolded r]] assms Inr r show ?thesis
    by (auto simp: accumulate_bones_def)
qed


lemma build_pchan_from_defbase_length:
  "build_pchan_from_defbase p groups = Inr table \<Longrightarrow> length table = length groups"
proof (induction groups arbitrary: table)
  case Nil
  then show ?case by simp
next
  case (Cons g groups)
  then show ?case
    by (auto simp: Let_def split: sum.splits option.splits if_splits)
qed

lemma vgroup_setup_table_length:
  assumes "vgroup_setup p ob_target defbase n deformflag nm dvs me em
             = Inr (def_nr1, len1, True, offset, table)"
  shows "length table = len1"
proof -
  from assms obtain groups where g: "defbase = Some groups" "len1 = length groups"
      "build_pchan_from_defbase p groups = Inr table"
    by (auto simp: vgroup_setup_def Let_def split: if_splits option.splits sum.splits)
  from build_pchan_from_defbase_length [OF g(3)] g(2) show ?thesis by simp
qed

text \<open>
  Claim C8. A weight entry whose bone index is not below the length of the bone table
  (\<open>defbase_len\<close>, which is the length of the table that the batch driver builds) is
  skipped: wherever it stands among the weights of the vertex, the loop gives the result
  (accumulators, contribution, deformed flag, or fault) that it gives without the entry,
  and so does the whole accumulation for the vertex.
\<close>

theorem C8_out_of_range_entry_skipped:
  assumes "defbase_len data \<le> def_nr d"
  shows "dvert_loop e data co fd (pre @ d # post) st = dvert_loop e data co fd (pre @ post) st
       \<and> accumulate_bones e data (Some \<lparr>dw = pre @ d # post\<rparr>) co fd acc0
           = accumulate_bones e data (Some \<lparr>dw = pre @ post\<rparr>) co fd acc0"
proof -
  have loop: "dvert_loop e data co fd (pre @ d # post) s = dvert_loop e data co fd (pre @ post) s"
    for s
    by (rule dvert_loop_drop [OF assms])
  have "accumulate_bones e data (Some \<lparr>dw = pre @ d # post\<rparr>) co fd acc0
           = accumulate_bones e data (Some \<lparr>dw = pre @ post\<rparr>) co fd acc0"
  proof (cases "pre @ post = []")
    case True
    then have "dvert_loop e data co fd [d] (0, acc0, 0) = Inr (0, acc0, 0)"
      using assms by simp
    with True show ?thesis
      by (simp add: accumulate_bones_def totweight_def)
  next
    case False
    then show ?thesis
      by (simp add: accumulate_bones_def totweight_def loop)
  qed
  with loop show ?thesis by simp
qed

theorem C8_out_of_range_entry_skipped_witness:
  "defbase_len ex_data \<le> def_nr \<lparr>def_nr = 7, dw_weight = 1\<rparr>
   \<and> dvert_loop ex_env ex_data (1 / 2, 0, 1) False
        ([] @ \<lparr>def_nr = 7, dw_weight = 1\<rparr> # [\<lparr>def_nr = 0, dw_weight = 1\<rparr>])
        (0, init_accum ex_env False False, 0)
      = Inr (1, \<lparr>co_accum = Some (0, 0, 1), dq_accum = None, mat_accum = None\<rparr>, 1)
   \<and> dvert_loop ex_env ex_data (1 / 2, 0, 1) False ([] @ [\<lparr>def_nr = 0, dw_weight = 1\<rparr>])
        (0, init_accum ex_env False False, 0)
      = Inr (1, \<lparr>co_accum = Some (0, 0, 1), dq_accum = None, mat_accum = None\<rparr>, 1)"
proof -
  have h: "defbase_len ex_data \<le> def_nr \<lparr>def_nr = 7, dw_weight = 1\<rparr>"
    by (simp add: ex_data_def)
  have run: "dvert_loop ex_env ex_data (1 / 2, 0, 1) False ([] @ [\<lparr>def_nr = 0, dw_weight = 1\<rparr>])
        (0, init_accum ex_env False False, 0)
      = Inr (1, \<lparr>co_accum = Some (0, 0, 1), dq_accum = None, mat_accum = None\<rparr>, 1)"
    by (simp add: ex_defs nth_opt_def pchan_bone_deform_def pchan_deform_accumulate_def
        init_accum_def sub_v3_v3_def madd_v3_v3fl_def Let_def)
  from C8_out_of_range_entry_skipped [OF h, of ex_env "(1 / 2, 0, 1)" False "[]"
      "[\<lparr>def_nr = 0, dw_weight = 1\<rparr>]" "(0, init_accum ex_env False False, 0)"]
  have "dvert_loop ex_env ex_data (1 / 2, 0, 1) False
        ([] @ \<lparr>def_nr = 7, dw_weight = 1\<rparr> # [\<lparr>def_nr = 0, dw_weight = 1\<rparr>])
        (0, init_accum ex_env False False, 0)
      = dvert_loop ex_env ex_data (1 / 2, 0, 1) False ([] @ [\<lparr>def_nr = 0, dw_weight = 1\<rparr>])
        (0, init_accum ex_env False False, 0)"
    by (rule conjunct1)
  with h run show ?thesis by (simp only: simp_thms)
qed

subsection \<open>Vertex groups before envelopes\<close>

text \<open>
  Claim C3, as stated: for a vertex with vertex-group weights present and enabled, the
  envelope fallback runs if and only if no vertex-group bone deformed the vertex. The
  source asks for envelope mode as well (\<^verbatim>\<open>deformed == 0 && use_envelope\<close>). Here
  vertex groups are enabled and the vertex has one weight, whose index 5 is outside the
  table of one bone, so that no vertex-group bone deforms it: the loop leaves the
  accumulator and the contribution as they were, with the flag at 0. Envelope mode is
  off. The vertex (1/2,0,1) lies inside the envelope of the armature's bone, and the
  fallback would give the contribution 1; the accumulation returns the contribution 0
  and the untouched accumulator: the fallback has not run.
\<close>

theorem C3_envelope_disabled_counterexample:
  "use_dverts (ex_data\<lparr>use_envelope := False\<rparr>)
   \<and> totweight \<lparr>dw = [\<lparr>def_nr = 5, dw_weight = 1\<rparr>]\<rparr> \<noteq> 0
   \<and> dvert_loop ex_env (ex_data\<lparr>use_envelope := False\<rparr>) (1 / 2, 0, 1) False
        (dw \<lparr>dw = [\<lparr>def_nr = 5, dw_weight = 1\<rparr>]\<rparr>) (0, init_accum ex_env False False, 0)
      = Inr (0, init_accum ex_env False False, 0)
   \<and> envelope_deform ex_env (ex_data\<lparr>use_envelope := False\<rparr>) (1 / 2, 0, 1) False
        (init_accum ex_env False False, 0)
      = Inr (\<lparr>co_accum = Some (0, 0, 1), dq_accum = None, mat_accum = None\<rparr>, 1)
   \<and> accumulate_bones ex_env (ex_data\<lparr>use_envelope := False\<rparr>)
        (Some \<lparr>dw = [\<lparr>def_nr = 5, dw_weight = 1\<rparr>]\<rparr>) (1 / 2, 0, 1) False
        (init_accum ex_env False False)
      = Inr (\<lparr>co_accum = Some (0, 0, 0), dq_accum = None, mat_accum = None\<rparr>, 0)"
proof -
  have env: "envelope_deform ex_env (ex_data\<lparr>use_envelope := False\<rparr>) (1 / 2, 0, 1) False
        (init_accum ex_env False False, 0)
      = Inr (\<lparr>co_accum = Some (0, 0, 1), dq_accum = None, mat_accum = None\<rparr>, 1)"
    by (simp add: envelope_deform_def ex_defs dist_bone_deform_def ex_distfactor_inside
        pchan_deform_accumulate_def init_accum_def sub_v3_v3_def madd_v3_v3fl_def Let_def)
  show ?thesis
    by (simp add: env) (simp add: accumulate_bones_def ex_defs totweight_def init_accum_def)
qed

text \<open>
  Claim C3, amended. For a vertex with vertex-group weights present and enabled, the
  envelope fallback over the pose channels of the armature runs if and only if envelope
  mode is enabled and no vertex-group bone deformed the vertex, that is, no weight entry
  resolved to a non-null, deform-enabled pose channel of the table (an entry that
  resolves counts whatever its weight, a weight of zero included). When it runs it
  starts from the untouched accumulator; when a vertex-group bone deformed the vertex
  the result is that of the vertex-group loop alone, also in envelope mode.
\<close>

theorem C3_envelope_fallback_condition:
  assumes "use_dverts data" and "totweight dv \<noteq> 0"
  shows "accumulate_bones e data (Some dv) co fd acc0 =
     (case dvert_loop e data co fd (dw dv) (0, acc0, 0) of
        Inl f \<Rightarrow> Inl f
      | Inr (deformed, acc, contrib) \<Rightarrow>
          if use_envelope data \<and> \<not> list_ex (resolves data) (dw dv)
          then envelope_deform e data co fd (acc0, 0)
          else Inr (acc, contrib))"
  by (rule accumulate_bones_groups [OF assms])

theorem C3_envelope_fallback_condition_witness:
  "use_dverts ex_data \<and> totweight \<lparr>dw = [\<lparr>def_nr = 5, dw_weight = 1\<rparr>]\<rparr> \<noteq> 0
   \<and> use_envelope ex_data
   \<and> \<not> list_ex (resolves ex_data) (dw \<lparr>dw = [\<lparr>def_nr = 5, dw_weight = 1\<rparr>]\<rparr>)
   \<and> accumulate_bones ex_env ex_data (Some \<lparr>dw = [\<lparr>def_nr = 5, dw_weight = 1\<rparr>]\<rparr>)
        (1 / 2, 0, 1) False (init_accum ex_env False False)
      = Inr (\<lparr>co_accum = Some (0, 0, 1), dq_accum = None, mat_accum = None\<rparr>, 1)
   \<and> list_ex (resolves ex_data) (dw \<lparr>dw = [\<lparr>def_nr = 0, dw_weight = 0\<rparr>]\<rparr>)
   \<and> accumulate_bones ex_env ex_data (Some \<lparr>dw = [\<lparr>def_nr = 0, dw_weight = 0\<rparr>]\<rparr>)
        (1 / 2, 0, 1) False (init_accum ex_env False False)
      = Inr (init_accum ex_env False False, 0)"
proof -
  let ?far = "\<lparr>dw = [\<lparr>def_nr = 5, dw_weight = 1\<rparr>]\<rparr>"
  let ?zero = "\<lparr>dw = [\<lparr>def_nr = 0, dw_weight = 0\<rparr>]\<rparr>"
  have u: "use_dverts ex_data" and v: "use_envelope ex_data"
    by (simp_all add: ex_data_def)
  have t1: "totweight ?far \<noteq> 0" and t2: "totweight ?zero \<noteq> 0"
    by (simp_all add: totweight_def)
  have r1: "\<not> list_ex (resolves ex_data) (dw ?far)"
    by (simp add: resolves_def ex_data_def)
  have r2: "list_ex (resolves ex_data) (dw ?zero)"
    by (simp add: resolves_def ex_data_def nth_opt_def)
  have l1: "dvert_loop ex_env ex_data (1 / 2, 0, 1) False (dw ?far)
              (0, init_accum ex_env False False, 0) = Inr (0, init_accum ex_env False False, 0)"
    by (simp add: ex_data_def)
  have l2: "dvert_loop ex_env ex_data (1 / 2, 0, 1) False (dw ?zero)
              (0, init_accum ex_env False False, 0) = Inr (1, init_accum ex_env False False, 0)"
    by (simp add: ex_data_def nth_opt_def pchan_bone_deform_def ex_pchan_def ex_bone_def)
  have a1: "accumulate_bones ex_env ex_data (Some ?far) (1 / 2, 0, 1) False
              (init_accum ex_env False False)
            = Inr (\<lparr>co_accum = Some (0, 0, 1), dq_accum = None, mat_accum = None\<rparr>, 1)"
    using C3_envelope_fallback_condition [OF u t1, of ex_env "(1 / 2, 0, 1)" False
        "init_accum ex_env False False"]
    by (simp only: l1 r1 v sum.case prod.case simp_thms if_True ex_envelope_inside)
  have a2: "accumulate_bones ex_env ex_data (Some ?zero) (1 / 2, 0, 1) False
              (init_accum ex_env False False)
            = Inr (init_accum ex_env False False, 0)"
    using C3_envelope_fallback_condition [OF u t2, of ex_env "(1 / 2, 0, 1)" False
        "init_accum ex_env False False"]
    by (simp only: l2 r2 v sum.case prod.case simp_thms if_False)
  from u v t1 r1 a1 r2 a2 show ?thesis by (simp only: simp_thms)
qed

section \<open>Properties of the batch driver\<close>

lemma ex_batch_range:
  "armature_deform_coords_impl ex_env ex_arm ex_target None
     \<lparr>vert_coords = [(1 / 2, 0, 1), (1 / 2, 0, 1)], vert_deform_mats = None,
      vert_coords_prev = None\<rparr> 2
     {ARM_DEF_ENVELOPE} [] empty_span None None
   = ([], Inr \<lparr>vert_coords = [(1 / 2, 0, 2), (1 / 2, 0, 2)], vert_deform_mats = None,
               vert_coords_prev = None\<rparr>)"
proof -
  have two: "[0..<2] = [0, Suc 0]" by (simp add: upt_rec)
  show ?thesis
  by (simp add: armature_deform_coords_impl_def vgroup_setup_def
      BKE_object_supports_vertex_groups_def BKE_id_supports_vertex_groups_def
      BKE_id_defgroup_list_get_def run_batch_def BLI_task_parallel_range_def two
      armature_vert_task_def empty_span_def armature_vert_task_with_dvert_def
      vertex_weights_def nth_opt_def deform_co_def accumulate_bones_def apply_accum_def
      mul_m4_v3_def envelope_deform_def ex_defs dist_bone_deform_def ex_distfactor_inside
      pchan_deform_accumulate_def init_accum_def sub_v3_v3_def madd_v3_v3fl_def Let_def)
qed

lemma ex_batch_editmesh:
  "armature_deform_coords_impl ex_env ex_arm ex_target None
     \<lparr>vert_coords = [(1 / 2, 0, 1), (1 / 2, 0, 1)], vert_deform_mats = None,
      vert_coords_prev = None\<rparr> 2
     {ARM_DEF_ENVELOPE} [] empty_span None (Some ex_em)
   = ([], Inr \<lparr>vert_coords = [(1 / 2, 0, 2), (1 / 2, 0, 2)], vert_deform_mats = None,
               vert_coords_prev = None\<rparr>)"
  by (simp add: armature_deform_coords_impl_def vgroup_setup_def
      BKE_object_supports_vertex_groups_def BKE_id_supports_vertex_groups_def
      BKE_id_defgroup_list_get_def run_batch_def BLI_task_parallel_mempool_def ex_em_def
      armature_vert_task_editmesh_no_dvert_def
      empty_span_def armature_vert_task_with_dvert_def
      vertex_weights_def nth_opt_def deform_co_def accumulate_bones_def apply_accum_def
      mul_m4_v3_def envelope_deform_def ex_defs dist_bone_deform_def ex_distfactor_inside
      pchan_deform_accumulate_def init_accum_def sub_v3_v3_def madd_v3_v3fl_def Let_def)

subsection \<open>Every vertex of the batch gets its task\<close>

lemma foldl_fault:
  "foldl (\<lambda>r x. case r of Inl f \<Rightarrow> Inl f | Inr b \<Rightarrow> task x b) (Inl f) xs = Inl f"
  by (induction xs) simp_all

lemma run_tasks_foldl:
  "run_tasks task xs bufs =
     foldl (\<lambda>r x. case r of Inl f \<Rightarrow> Inl f | Inr b \<Rightarrow> task x b) (Inr bufs) xs"
proof (induction xs arbitrary: bufs)
  case Nil
  then show ?case by simp
next
  case (Cons x xs)
  show ?case
  proof (cases "task x bufs")
    case (Inl f)
    then show ?thesis by (simp add: foldl_fault)
  next
    case (Inr b)
    then show ?thesis by (simp add: Cons.IH)
  qed
qed

lemma run_batch_foldl:
  "run_batch e data n em bufs =
     (case em of
        None \<Rightarrow>
          foldl (\<lambda>r i. case r of Inl f \<Rightarrow> Inl f | Inr b \<Rightarrow> armature_vert_task e data i b)
            (Inr bufs) [0..<n]
      | Some em1 \<Rightarrow>
          if use_dverts data then
            foldl (\<lambda>r iv. case r of
                     Inl f \<Rightarrow> Inl f
                   | Inr b \<Rightarrow> armature_vert_task_editmesh e data iv b)
              (Inr bufs) (enumerate 0 (vpool em1))
          else
            foldl (\<lambda>r iv. case r of
                     Inl f \<Rightarrow> Inl f
                   | Inr b \<Rightarrow> armature_vert_task_editmesh_no_dvert e data iv b)
              (Inr bufs) (enumerate 0 (vpool em1)))"
  by (cases em; cases "use_dverts data")
    (simp_all add: run_batch_def BLI_task_parallel_range_def BLI_task_parallel_mempool_def
       run_tasks_foldl)

subsection \<open>Independence of the pose flags\<close>

lemma dvert_loop_ob_arm:
  "dvert_loop e (data\<lparr>ob_arm := ob\<rparr>) co fd ds st = dvert_loop e data co fd ds st"
proof (induction ds arbitrary: st)
  case Nil
  then show ?case by simp
next
  case (Cons d ds)
  obtain deformed acc contrib where st: "st = (deformed, acc, contrib)" by (cases st)
  show ?case
    by (simp add: st Cons.IH Let_def cong: option.case_cong sum.case_cong)
qed

lemma envelope_deform_ob_arm:
  assumes "map_option chanbase (pose ob) = map_option chanbase (pose (ob_arm data))"
  shows "envelope_deform e (data\<lparr>ob_arm := ob\<rparr>) co fd st = envelope_deform e data co fd st"
  using assms by (auto simp: envelope_deform_def split: option.splits)

lemma accumulate_bones_ob_arm:
  assumes "map_option chanbase (pose ob) = map_option chanbase (pose (ob_arm data))"
  shows "accumulate_bones e (data\<lparr>ob_arm := ob\<rparr>) dvert co fd a
           = accumulate_bones e data dvert co fd a"
  by (simp add: accumulate_bones_def Let_def envelope_deform_ob_arm [OF assms]
      dvert_loop_ob_arm split: option.split sum.split prod.split)

lemma apply_accum_ob_arm:
  "apply_accum e (data\<lparr>ob_arm := ob\<rparr>) i aw a c co mats = apply_accum e data i aw a c co mats"
  by (simp add: apply_accum_def Let_def
      cong: option.case_cong sum.case_cong prod.case_cong if_cong)

lemma deform_co_ob_arm:
  assumes "map_option chanbase (pose ob) = map_option chanbase (pose (ob_arm data))"
  shows "deform_co e (data\<lparr>ob_arm := ob\<rparr>) i dvert aw co mats
           = deform_co e data i dvert aw co mats"
  by (simp add: deform_co_def accumulate_bones_ob_arm [OF assms] apply_accum_ob_arm Let_def
      cong: sum.case_cong prod.case_cong)

lemma vertex_weights_ob_arm:
  "vertex_weights (data\<lparr>ob_arm := ob\<rparr>) dvert h = vertex_weights data dvert h"
  by (simp add: vertex_weights_def cong: option.case_cong if_cong)

lemma with_dvert_ob_arm:
  assumes "map_option chanbase (pose ob) = map_option chanbase (pose (ob_arm data))"
  shows "armature_vert_task_with_dvert e (data\<lparr>ob_arm := ob\<rparr>) i dvert bufs
           = armature_vert_task_with_dvert e data i dvert bufs"
  by (simp only: armature_vert_task_with_dvert_def deform_co_ob_arm [OF assms]
      vertex_weights_ob_arm)

lemma task_ob_arm:
  assumes "map_option chanbase (pose ob) = map_option chanbase (pose (ob_arm data))"
  shows "armature_vert_task e (data\<lparr>ob_arm := ob\<rparr>) = armature_vert_task e data"
    and "armature_vert_task_editmesh e (data\<lparr>ob_arm := ob\<rparr>)
           = armature_vert_task_editmesh e data"
    and "armature_vert_task_editmesh_no_dvert e (data\<lparr>ob_arm := ob\<rparr>)
           = armature_vert_task_editmesh_no_dvert e data"
proof -
  have sel: "use_dverts (data\<lparr>ob_arm := ob\<rparr>) = use_dverts data"
    "armature_def_nr (data\<lparr>ob_arm := ob\<rparr>) = armature_def_nr data"
    "me_target (data\<lparr>ob_arm := ob\<rparr>) = me_target data"
    "dverts (data\<lparr>ob_arm := ob\<rparr>) = dverts data"
    "dverts_len (data\<lparr>ob_arm := ob\<rparr>) = dverts_len data"
    by simp_all
  show "armature_vert_task e (data\<lparr>ob_arm := ob\<rparr>) = armature_vert_task e data"
    by (rule ext, rule ext)
      (simp only: armature_vert_task_def with_dvert_ob_arm [OF assms] sel)
  show "armature_vert_task_editmesh e (data\<lparr>ob_arm := ob\<rparr>)
          = armature_vert_task_editmesh e data"
    by (rule ext, rule ext)
      (simp only: armature_vert_task_editmesh_def with_dvert_ob_arm [OF assms])
  show "armature_vert_task_editmesh_no_dvert e (data\<lparr>ob_arm := ob\<rparr>)
          = armature_vert_task_editmesh_no_dvert e data"
    by (rule ext, rule ext)
      (simp only: armature_vert_task_editmesh_no_dvert_def with_dvert_ob_arm [OF assms])
qed

lemma build_chanbase:
  assumes "chanbase p1 = chanbase p"
  shows "build_pchan_from_defbase p1 groups = build_pchan_from_defbase p groups"
  by (induction groups) (simp_all add: BKE_pose_channel_find_name_def assms)

lemma vgroup_setup_chanbase:
  assumes "chanbase p1 = chanbase p"
  shows "vgroup_setup p1 ob_target defbase n deformflag nm dvs me em =
           vgroup_setup p ob_target defbase n deformflag nm dvs me em"
  by (simp only: vgroup_setup_def build_chanbase [OF assms])

lemma run_batch_ob_arm:
  assumes "map_option chanbase (pose ob) = map_option chanbase (pose (ob_arm data))"
  shows "run_batch e (data\<lparr>ob_arm := ob\<rparr>) n em bufs = run_batch e data n em bufs"
proof -
  have sel: "use_dverts (data\<lparr>ob_arm := ob\<rparr>) = use_dverts data" by simp
  show ?thesis
    by (simp only: run_batch_def task_ob_arm [OF assms] sel)
qed

subsection \<open>A pose that needs recalculation\<close>

text \<open>
  Claim C9, as it is stated, fails on the code. The test for edit mode and for a missing
  pose comes first (line 510): for an armature in edit mode whose pose carries the
  pose-recalc flag the driver returns there, writes no diagnostic and deforms no vertex.
  And where a failed \<^verbatim>\<open>BLI_assert\<close> aborts, the call on a stale pose ends in the
  assertion of line 518, after the diagnostic and before any vertex is deformed.
\<close>

theorem C9_edit_mode_counterexample:
  "pose (ex_stale_arm\<lparr>ob_data := ID_AR \<lparr>edbo = Some [''Bone'']\<rparr>\<rparr>)
     = Some \<lparr>pose_flag = {POSE_RECALC}, chanbase = [ex_pchan]\<rparr>
   \<and> armature_deform_coords_impl ex_env
        (ex_stale_arm\<lparr>ob_data := ID_AR \<lparr>edbo = Some [''Bone'']\<rparr>\<rparr>) ex_target None
        \<lparr>vert_coords = [(1 / 2, 0, 1)], vert_deform_mats = None, vert_coords_prev = None\<rparr> 1
        {ARM_DEF_ENVELOPE} [] empty_span None None
      = ([], Inr \<lparr>vert_coords = [(1 / 2, 0, 1)], vert_deform_mats = None,
                  vert_coords_prev = None\<rparr>)
   \<and> armature_deform_coords_impl (ex_env\<lparr>assert_aborts := True\<rparr>) ex_stale_arm ex_target None
        \<lparr>vert_coords = [(1 / 2, 0, 1)], vert_deform_mats = None, vert_coords_prev = None\<rparr> 1
        {ARM_DEF_ENVELOPE} [] empty_span None None
      = ([pose_recalc_message ''OBArmature''], Inl Assert_Failed)"
  by (simp add: armature_deform_coords_impl_def ex_stale_arm_def ex_arm_def ex_env_def)

text \<open>
  Claim C9, amended. When the armature is not in edit mode and its pose carries the
  pose-recalc flag, the batch driver writes one diagnostic. Where a failed assertion
  aborts (debug builds), the call ends in the assertion. Where it does not, the driver
  does not return early: it sets up the vertex groups from the pose as it is, and runs
  the task of every vertex of the batch, one for each index below the number of
  coordinates or one for each vertex of the pool of the editable mesh, each on the
  buffers left by the one before, a fault in the setup or in a task being the outcome of
  the batch. The outcome is that of the same call with the flag cleared, and that call
  writes no diagnostic.
\<close>

theorem C9_stale_pose_still_deforms:
  assumes arm: "ob_data ob_arm_in = ID_AR arm" and ed: "edbo arm = None"
    and p: "pose ob_arm_in = Some p" and stale: "POSE_RECALC \<in> pose_flag p"
  shows "armature_deform_coords_impl e ob_arm_in ob_target defbase bufs n deformflag nm dvs me em =
           ([pose_recalc_message (id_name ob_arm_in)],
            if assert_aborts e then Inl Assert_Failed
            else
              (case vgroup_setup p ob_target defbase n deformflag nm dvs me em of
                 Inl f \<Rightarrow> Inl f
               | Inr (def_nr1, len1, use, offset, table) \<Rightarrow>
                   let post = mul_m4_m4m4 (invert_m4_m4 e (object_to_world ob_target))
                                (object_to_world ob_arm_in);
                       data =
                         \<lparr>ob_arm = ob_arm_in, me_target = me,
                          use_envelope = (ARM_DEF_ENVELOPE \<in> deformflag),
                          use_quaternion = (ARM_DEF_QUATERNION \<in> deformflag),
                          invert_vgroup = (ARM_DEF_INVERT_VGROUP \<in> deformflag),
                          use_dverts = use, armature_def_nr = def_nr1,
                          dverts = span_data dvs, dverts_len = span_size dvs,
                          pchan_from_defbase = table, defbase_len = len1,
                          premat = invert_m4_m4 e post, postmat = post,
                          cd_dvert_offset = offset\<rparr>
                   in case em of
                        None \<Rightarrow>
                          foldl (\<lambda>r i. case r of
                                   Inl f \<Rightarrow> Inl f
                                 | Inr b \<Rightarrow> armature_vert_task e data i b)
                            (Inr bufs) [0..<n]
                      | Some em1 \<Rightarrow>
                          if use then
                            foldl (\<lambda>r iv. case r of
                                     Inl f \<Rightarrow> Inl f
                                   | Inr b \<Rightarrow> armature_vert_task_editmesh e data iv b)
                              (Inr bufs) (enumerate 0 (vpool em1))
                          else
                            foldl (\<lambda>r iv. case r of
                                     Inl f \<Rightarrow> Inl f
                                   | Inr b \<Rightarrow> armature_vert_task_editmesh_no_dvert e data iv b)
                              (Inr bufs) (enumerate 0 (vpool em1))))
       \<and> armature_deform_coords_impl e ob_arm_in ob_target defbase bufs n deformflag nm dvs me em =
           ([pose_recalc_message (id_name ob_arm_in)],
            if assert_aborts e then Inl Assert_Failed
            else snd (armature_deform_coords_impl e
                        (ob_arm_in\<lparr>pose := Some (p\<lparr>pose_flag := pose_flag p - {POSE_RECALC}\<rparr>)\<rparr>)
                        ob_target defbase bufs n deformflag nm dvs me em))
       \<and> fst (armature_deform_coords_impl e
                (ob_arm_in\<lparr>pose := Some (p\<lparr>pose_flag := pose_flag p - {POSE_RECALC}\<rparr>)\<rparr>)
                ob_target defbase bufs n deformflag nm dvs me em) = []"
proof -
  let ?p = "p\<lparr>pose_flag := pose_flag p - {POSE_RECALC}\<rparr>"
  let ?ob = "ob_arm_in\<lparr>pose := Some ?p\<rparr>"
  have cb: "chanbase ?p = chanbase p" by simp
  note vs = vgroup_setup_chanbase [OF cb, of ob_target defbase n deformflag nm dvs me em]
  show ?thesis
  proof (cases "vgroup_setup p ob_target defbase n deformflag nm dvs me em")
    case (Inl f)
    then show ?thesis
      using arm ed p stale by (simp add: armature_deform_coords_impl_def vs Let_def)
  next
    case (Inr r)
    obtain def_nr1 len1 use offset table where r: "r = (def_nr1, len1, use, offset, table)"
      by (cases r)
    define data where "data =
       \<lparr>ob_arm = ob_arm_in, me_target = me,
        use_envelope = (ARM_DEF_ENVELOPE \<in> deformflag),
        use_quaternion = (ARM_DEF_QUATERNION \<in> deformflag),
        invert_vgroup = (ARM_DEF_INVERT_VGROUP \<in> deformflag),
        use_dverts = use, armature_def_nr = def_nr1,
        dverts = span_data dvs, dverts_len = span_size dvs,
        pchan_from_defbase = table, defbase_len = len1,
        premat = invert_m4_m4 e (mul_m4_m4m4 (invert_m4_m4 e (object_to_world ob_target))
                   (object_to_world ob_arm_in)),
        postmat = mul_m4_m4m4 (invert_m4_m4 e (object_to_world ob_target))
                   (object_to_world ob_arm_in),
        cd_dvert_offset = offset\<rparr>"
    have use: "use_dverts data = use" by (simp add: data_def)
    have same: "map_option chanbase (pose ?ob) = map_option chanbase (pose (ob_arm data))"
      using p by (simp add: data_def)
    have stale_run: "armature_deform_coords_impl e ob_arm_in ob_target defbase bufs n deformflag
        nm dvs me em =
          ([pose_recalc_message (id_name ob_arm_in)],
           if assert_aborts e then Inl Assert_Failed else run_batch e data n em bufs)"
      using arm ed p stale Inr
      by (simp add: armature_deform_coords_impl_def r Let_def data_def)
    have fresh_run: "armature_deform_coords_impl e ?ob ob_target defbase bufs n deformflag
        nm dvs me em = ([], run_batch e (data\<lparr>ob_arm := ?ob\<rparr>) n em bufs)"
      using arm ed Inr
      by (simp add: armature_deform_coords_impl_def vs r Let_def data_def)
    have tasks: "(case vgroup_setup p ob_target defbase n deformflag nm dvs me em of
                 Inl f \<Rightarrow> Inl f
               | Inr (def_nr1, len1, use, offset, table) \<Rightarrow>
                   let post = mul_m4_m4m4 (invert_m4_m4 e (object_to_world ob_target))
                                (object_to_world ob_arm_in);
                       data =
                         \<lparr>ob_arm = ob_arm_in, me_target = me,
                          use_envelope = (ARM_DEF_ENVELOPE \<in> deformflag),
                          use_quaternion = (ARM_DEF_QUATERNION \<in> deformflag),
                          invert_vgroup = (ARM_DEF_INVERT_VGROUP \<in> deformflag),
                          use_dverts = use, armature_def_nr = def_nr1,
                          dverts = span_data dvs, dverts_len = span_size dvs,
                          pchan_from_defbase = table, defbase_len = len1,
                          premat = invert_m4_m4 e post, postmat = post,
                          cd_dvert_offset = offset\<rparr>
                   in case em of
                        None \<Rightarrow>
                          foldl (\<lambda>r i. case r of
                                   Inl f \<Rightarrow> Inl f
                                 | Inr b \<Rightarrow> armature_vert_task e data i b)
                            (Inr bufs) [0..<n]
                      | Some em1 \<Rightarrow>
                          if use then
                            foldl (\<lambda>r iv. case r of
                                     Inl f \<Rightarrow> Inl f
                                   | Inr b \<Rightarrow> armature_vert_task_editmesh e data iv b)
                              (Inr bufs) (enumerate 0 (vpool em1))
                          else
                            foldl (\<lambda>r iv. case r of
                                     Inl f \<Rightarrow> Inl f
                                   | Inr b \<Rightarrow> armature_vert_task_editmesh_no_dvert e data iv b)
                              (Inr bufs) (enumerate 0 (vpool em1)))
          = run_batch e data n em bufs"
      apply (subst run_batch_foldl [of e data n em bufs, unfolded use])
      unfolding Inr r sum.case prod.case Let_def data_def
      apply (rule refl)
      done
    show ?thesis
      by (simp only: tasks)
        (simp only: stale_run fresh_run run_batch_ob_arm [OF same] fst_conv snd_conv simp_thms)
  qed
qed

theorem C9_stale_pose_still_deforms_witness:
  "ob_data ex_stale_arm = ID_AR \<lparr>edbo = None\<rparr>
   \<and> edbo \<lparr>edbo = None\<rparr> = None
   \<and> pose ex_stale_arm = Some \<lparr>pose_flag = {POSE_RECALC}, chanbase = [ex_pchan]\<rparr>
   \<and> POSE_RECALC \<in> pose_flag \<lparr>pose_flag = {POSE_RECALC}, chanbase = [ex_pchan]\<rparr>
   \<and> armature_deform_coords_impl ex_env ex_stale_arm ex_target None
        \<lparr>vert_coords = [(1 / 2, 0, 1), (1 / 2, 0, 1)], vert_deform_mats = None,
         vert_coords_prev = None\<rparr> 2
        {ARM_DEF_ENVELOPE} [] empty_span None None
      = ([pose_recalc_message ''OBArmature''],
         Inr \<lparr>vert_coords = [(1 / 2, 0, 2), (1 / 2, 0, 2)], vert_deform_mats = None,
              vert_coords_prev = None\<rparr>)
   \<and> armature_deform_coords_impl ex_env ex_stale_arm ex_target None
        \<lparr>vert_coords = [(1 / 2, 0, 1), (1 / 2, 0, 1)], vert_deform_mats = None,
         vert_coords_prev = None\<rparr> 2
        {ARM_DEF_ENVELOPE} [] empty_span None (Some ex_em)
      = ([pose_recalc_message ''OBArmature''],
         Inr \<lparr>vert_coords = [(1 / 2, 0, 2), (1 / 2, 0, 2)], vert_deform_mats = None,
              vert_coords_prev = None\<rparr>)"
proof -
  let ?p = "\<lparr>pose_flag = {POSE_RECALC}, chanbase = [ex_pchan]\<rparr>"
  let ?bufs = "\<lparr>vert_coords = [(1 / 2, 0, 1) :: float3, (1 / 2, 0, 1)], vert_deform_mats = None,
                vert_coords_prev = None\<rparr>"
  have arm: "ob_data ex_stale_arm = ID_AR \<lparr>edbo = None\<rparr>"
    by (simp add: ex_stale_arm_def ex_arm_def)
  have ed: "edbo \<lparr>edbo = None\<rparr> = None" by simp
  have p: "pose ex_stale_arm = Some ?p" by (simp add: ex_stale_arm_def)
  have stale: "POSE_RECALC \<in> pose_flag ?p" by simp
  have fresh: "ex_stale_arm\<lparr>pose := Some (?p\<lparr>pose_flag := pose_flag ?p - {POSE_RECALC}\<rparr>)\<rparr>
      = ex_arm"
    by (simp add: ex_stale_arm_def ex_arm_def)
  have nm: "id_name ex_stale_arm = ''OBArmature''" by (simp add: ex_stale_arm_def ex_arm_def)
  have rel: "\<not> assert_aborts ex_env" by (simp add: ex_env_def)
  note range = C9_stale_pose_still_deforms [OF arm ed p stale, of ex_env ex_target None ?bufs 2
      "{ARM_DEF_ENVELOPE}" "[]" empty_span None None, THEN conjunct2, THEN conjunct1]
  note pool = C9_stale_pose_still_deforms [OF arm ed p stale, of ex_env ex_target None ?bufs 2
      "{ARM_DEF_ENVELOPE}" "[]" empty_span None "Some ex_em", THEN conjunct2, THEN conjunct1]
  have "armature_deform_coords_impl ex_env ex_stale_arm ex_target None ?bufs 2
          {ARM_DEF_ENVELOPE} [] empty_span None None
        = ([pose_recalc_message ''OBArmature''],
           Inr \<lparr>vert_coords = [(1 / 2, 0, 2), (1 / 2, 0, 2)], vert_deform_mats = None,
                vert_coords_prev = None\<rparr>)"
    using range by (simp only: fresh nm rel ex_batch_range if_False snd_conv fst_conv simp_thms)
  moreover have "armature_deform_coords_impl ex_env ex_stale_arm ex_target None ?bufs 2
          {ARM_DEF_ENVELOPE} [] empty_span None (Some ex_em)
        = ([pose_recalc_message ''OBArmature''],
           Inr \<lparr>vert_coords = [(1 / 2, 0, 2), (1 / 2, 0, 2)], vert_deform_mats = None,
                vert_coords_prev = None\<rparr>)"
    using pool by (simp only: fresh nm rel ex_batch_editmesh if_False snd_conv fst_conv simp_thms)
  ultimately show ?thesis using arm ed p stale by (simp only: simp_thms)
qed

subsection \<open>An armature in edit mode or without a pose\<close>

lemma impl_no_pose:
  assumes "ob_data ob_arm_in = ID_AR arm" and "edbo arm \<noteq> None \<or> pose ob_arm_in = None"
  shows "armature_deform_coords_impl e ob_arm_in ob_target defbase bufs n deformflag nm dvs me em
           = ([], Inr bufs)"
  using assms by (auto simp: armature_deform_coords_impl_def split: option.splits)

text \<open>
  Claim C10. When the armature object is in edit mode (its armature has edit bones) or
  has no pose, the batch driver returns at once: no diagnostic is written and the
  coordinates, the deformation matrices and the previous coordinates are the buffers it
  was given. So it is for each of the three entry points; the entry point for curves
  first asserts that it was given one deform vertex per coordinate, and reaches the
  batch driver when that holds or when a failed assertion does not abort.
\<close>

theorem C10_edit_mode_or_no_pose_is_noop:
  assumes "ob_data ob_arm_in = ID_AR arm" and "edbo arm \<noteq> None \<or> pose ob_arm_in = None"
  shows "armature_deform_coords_impl e ob_arm_in ob_target defbase bufs n deformflag nm dvs me em
           = ([], Inr bufs)
       \<and> BKE_armature_deform_coords_with_mesh e ob_arm_in ob_target bufs n deformflag nm me
           = ([], Inr bufs)
       \<and> BKE_armature_deform_coords_with_editmesh e ob_arm_in ob_target bufs n deformflag nm em
           = ([], Inr bufs)
       \<and> ((assert_aborts e \<longrightarrow> span_size dvs = length (vert_coords bufs))
          \<longrightarrow> BKE_armature_deform_coords_with_curves e ob_arm_in ob_target defbase bufs dvs
                deformflag nm = ([], Inr bufs))"
proof -
  note impl = impl_no_pose [OF assms]
  have mesh: "BKE_armature_deform_coords_with_mesh e ob_arm_in ob_target bufs n deformflag nm me
           = ([], Inr bufs)"
    by (cases "ob_data ob_target")
      (simp_all add: BKE_armature_deform_coords_with_mesh_def ob_type_def impl Let_def
         split: option.split)
  show ?thesis
    by (auto simp: impl mesh BKE_armature_deform_coords_with_editmesh_def
        BKE_armature_deform_coords_with_curves_def)
qed

theorem C10_edit_mode_or_no_pose_is_noop_witness:
  "ob_data (ex_arm\<lparr>ob_data := ID_AR \<lparr>edbo = Some [''Bone'']\<rparr>\<rparr>) = ID_AR \<lparr>edbo = Some [''Bone'']\<rparr>
   \<and> edbo \<lparr>edbo = Some [''Bone'']\<rparr> \<noteq> None
   \<and> armature_deform_coords_impl ex_env (ex_arm\<lparr>ob_data := ID_AR \<lparr>edbo = Some [''Bone'']\<rparr>\<rparr>)
        ex_target None
        \<lparr>vert_coords = [(1 / 2, 0, 1)], vert_deform_mats = None, vert_coords_prev = None\<rparr> 1
        {ARM_DEF_ENVELOPE} [] empty_span None None
      = ([], Inr \<lparr>vert_coords = [(1 / 2, 0, 1)], vert_deform_mats = None,
                  vert_coords_prev = None\<rparr>)
   \<and> BKE_armature_deform_coords_with_mesh ex_env
        (ex_arm\<lparr>ob_data := ID_AR \<lparr>edbo = Some [''Bone'']\<rparr>\<rparr>) ex_target
        \<lparr>vert_coords = [(1 / 2, 0, 1)], vert_deform_mats = None, vert_coords_prev = None\<rparr> 1
        {ARM_DEF_ENVELOPE} [] None
      = ([], Inr \<lparr>vert_coords = [(1 / 2, 0, 1)], vert_deform_mats = None,
                  vert_coords_prev = None\<rparr>)
   \<and> BKE_armature_deform_coords_with_editmesh ex_env
        (ex_arm\<lparr>ob_data := ID_AR \<lparr>edbo = Some [''Bone'']\<rparr>\<rparr>) ex_target
        \<lparr>vert_coords = [(1 / 2, 0, 1)], vert_deform_mats = None, vert_coords_prev = None\<rparr> 1
        {ARM_DEF_ENVELOPE} [] None
      = ([], Inr \<lparr>vert_coords = [(1 / 2, 0, 1)], vert_deform_mats = None,
                  vert_coords_prev = None\<rparr>)
   \<and> BKE_armature_deform_coords_with_curves ex_env
        (ex_arm\<lparr>ob_data := ID_AR \<lparr>edbo = Some [''Bone'']\<rparr>\<rparr>) ex_target None
        \<lparr>vert_coords = [(1 / 2, 0, 1)], vert_deform_mats = None, vert_coords_prev = None\<rparr>
        empty_span {ARM_DEF_ENVELOPE} []
      = ([], Inr \<lparr>vert_coords = [(1 / 2, 0, 1)], vert_deform_mats = None,
                  vert_coords_prev = None\<rparr>)"
proof -
  let ?ob = "ex_arm\<lparr>ob_data := ID_AR \<lparr>edbo = Some [''Bone'']\<rparr>\<rparr>"
  let ?bufs = "\<lparr>vert_coords = [(1 / 2, 0, 1) :: float3], vert_deform_mats = None,
                vert_coords_prev = None\<rparr>"
  have arm: "ob_data ?ob = ID_AR \<lparr>edbo = Some [''Bone'']\<rparr>" by simp
  have ed: "edbo \<lparr>edbo = Some [''Bone'']\<rparr> \<noteq> None \<or> pose ?ob = None" by simp
  have rel: "assert_aborts ex_env \<longrightarrow> span_size empty_span = length (vert_coords ?bufs)"
    by (simp add: ex_env_def)
  from C10_edit_mode_or_no_pose_is_noop [OF arm ed, of ex_env ex_target None ?bufs 1
      "{ARM_DEF_ENVELOPE}" "[]" empty_span None None] rel arm
  show ?thesis by simp
qed

end
